theory Spec2Isabelle
  imports Main
begin

section \<open>Shared vocabulary of the provider code\<close>

text \<open>
  An error of the cloud SDK carries a code and a message (\<^verbatim>\<open>awserr.Error\<close>).
  \<^verbatim>\<open>aws.StringValue\<close> reads a \<^verbatim>\<open>*string\<close>: the empty string for nil.
\<close>

record aws_error =
  Code :: string
  Message :: string

definition StringValue :: "string option \<Rightarrow> string" where
  "StringValue v = (case v of None \<Rightarrow> [] | Some s \<Rightarrow> s)"

section \<open>WAF: the generated list-pages functions\<close>

text \<open>
  \<^verbatim>\<open>internal/service/waf/list_pages_gen.go\<close> holds twelve functions
  (\<^verbatim>\<open>listByteMatchSetsPages\<close> ... \<^verbatim>\<open>listXssMatchSetsPages\<close>) that are the same text up to
  the name of the list operation and the type of the items. One definition, polymorphic in
  the item type \<open>'x\<close> and with the remote operation \<open>conn\<close> as an argument, embeds them all.

  The remote call and the callback are effects. The history of the run (every remote call
  with its answer, every callback invocation with its arguments and answer) is the state that
  the function threads; the remote's answer and the callback's answer may depend on that
  history in any way.
\<close>

record ListInput =
  in_Limit :: "int option"
  in_NextMarker :: "string option"

record 'x ListOutput =
  out_Items :: "'x list"
  out_NextMarker :: "string option"

datatype 'x waf_event =
    Fetch ListInput "aws_error + 'x ListOutput"
  | Callback "'x ListOutput" bool bool

text \<open>
  The loop \<^verbatim>\<open>for { ... }\<close> has no bound of its own, so the embedding is a partial function:
  \<open>None\<close> is a run that never returns. A returned triple is the \<^verbatim>\<open>error\<close> result, the
  final content of \<^verbatim>\<open>*input\<close> (the function overwrites \<^verbatim>\<open>input.NextMarker\<close>) and the history.
\<close>

partial_function (option) listPages ::
  "('x waf_event list \<Rightarrow> ListInput \<Rightarrow> aws_error + 'x ListOutput) \<Rightarrow>
   ('x waf_event list \<Rightarrow> 'x ListOutput \<Rightarrow> bool \<Rightarrow> bool) \<Rightarrow>
   ListInput \<Rightarrow> 'x waf_event list \<Rightarrow>
   (aws_error option \<times> ListInput \<times> 'x waf_event list) option"
where
  "listPages conn fn input h =
     (case conn h input of
        Inl err \<Rightarrow> Some (Some err, input, h @ [Fetch input (Inl err)])
      | Inr output \<Rightarrow>
          (let h1 = h @ [Fetch input (Inr output)];
               lastPage = (StringValue (out_NextMarker output) = []);
               cont = fn h1 output lastPage;
               h2 = h1 @ [Callback output lastPage cont]
           in if \<not> cont \<or> lastPage then Some (None, input, h2)
              else listPages conn fn (input\<lparr>in_NextMarker := out_NextMarker output\<rparr>) h2))"

declare listPages.simps [code]

text \<open>
  The vocabulary of the property. A round is a request, the page it fetched and the callback's
  answer; its events are the fetch followed by one callback on that page, whose \<^verbatim>\<open>lastPage\<close>
  argument says whether the page's \<^verbatim>\<open>NextMarker\<close> is empty. A round continues when the
  callback answered true and the page is not the last one. \<open>run_shape h res input' h' rounds\<close>
  says that a run started at history \<open>h\<close> extended it to \<open>h'\<close> by these rounds: on an error
  result every round continued and the failing call is the last event, with no callback after
  it; on the nil result there is at least one round, every round but the last continued and
  the last did not.
\<close>

definition round_events :: "ListInput \<times> 'x ListOutput \<times> bool \<Rightarrow> 'x waf_event list" where
  "round_events r = (case r of (i, out, c) \<Rightarrow>
     [Fetch i (Inr out), Callback out (StringValue (out_NextMarker out) = []) c])"

definition continues :: "ListInput \<times> 'x ListOutput \<times> bool \<Rightarrow> bool" where
  "continues r = (case r of (i, out, c) \<Rightarrow> c \<and> StringValue (out_NextMarker out) \<noteq> [])"













section \<open>The host framework as the resources see it\<close>

text \<open>
  \<^verbatim>\<open>diag.Diagnostics\<close> is a list of diagnostics; the resources only ever append errors
  (\<^verbatim>\<open>sdkdiag.AppendErrorf\<close>), so an empty list is success. The texts of the messages are kept
  short: an error of the SDK prints as its code and message.
\<close>

datatype diag = DiagError string

type_synonym Diagnostics = "diag list"

definition AppendErrorf :: "Diagnostics \<Rightarrow> string \<Rightarrow> Diagnostics" where
  "AppendErrorf diags msg = diags @ [DiagError msg]"

definition ErrorString :: "aws_error \<Rightarrow> string" where
  "ErrorString e = Code e @ '': '' @ Message e"

text \<open>\<^verbatim>\<open>tfawserr.ErrCodeEquals(err, code)\<close>: false for a nil error.\<close>

definition ErrCodeEquals :: "aws_error option \<Rightarrow> string \<Rightarrow> bool" where
  "ErrCodeEquals err code = (case err of None \<Rightarrow> False | Some e \<Rightarrow> Code e = code)"

text \<open>
  \<^verbatim>\<open>schema.ResourceData\<close>: the identity (\<^verbatim>\<open>d.Id()\<close>, \<^verbatim>\<open>d.SetId\<close>; the empty string is
  "absent"), the new-resource mark, the attributes of the prior state (the old side of
  \<^verbatim>\<open>d.GetChange\<close>) and the attributes that \<^verbatim>\<open>d.Get\<close> returns and \<^verbatim>\<open>d.Set\<close> overwrites.
  \<^verbatim>\<open>d.GetOk\<close> on a string attribute is "set and not the zero value".
\<close>

record 'a ResourceData =
  Id :: string
  IsNewResource :: bool
  prior :: 'a
  attrs :: 'a

definition HasChange :: "('a \<Rightarrow> 'b) \<Rightarrow> 'a ResourceData \<Rightarrow> bool" where
  "HasChange key d = (key (prior d) \<noteq> key (attrs d))"

definition GetOk :: "string \<Rightarrow> string option" where
  "GetOk v = (if v = [] then None else Some v)"

text \<open>
  What the host and the packages outside the sources contribute is passed in. \<open>SetError k\<close> is
  the error, if any, with which the host's \<^verbatim>\<open>d.Set\<close> refuses a value for attribute \<open>k\<close>.
\<close>

record host =
  SetError :: "string \<Rightarrow> string option"

text \<open>
  \<^verbatim>\<open>resource.RetryContext(ctx, timeout, f)\<close> is the plugin SDK's, not this repository's. It
  calls \<open>f\<close> again while \<open>f\<close> returns a retryable error and the timeout has not elapsed. Real
  time is abstracted to the number of attempts that complete inside the timeout. The outcome
  is: nil when an attempt returns nil; the error of an attempt that returns a non-retryable
  error; when the timeout elapses, the error of the last attempt, or a \<^verbatim>\<open>TimeoutError\<close> without
  \<^verbatim>\<open>LastError\<close> if no attempt completed. \<^verbatim>\<open>tfresource.TimedOut\<close> recognises only the latter.
\<close>

datatype RetryError = RetryableError aws_error | NonRetryableError aws_error

datatype retry_outcome = RetryNil | RetryFailed aws_error | RetryTimeoutError

fun RetryContext ::
  "nat \<Rightarrow> ('st \<Rightarrow> RetryError option \<times> 'st) \<Rightarrow> aws_error option \<Rightarrow> 'st \<Rightarrow> retry_outcome \<times> 'st"
where
  "RetryContext 0 f lastErr st =
     ((case lastErr of None \<Rightarrow> RetryTimeoutError | Some e \<Rightarrow> RetryFailed e), st)"
| "RetryContext (Suc n) f lastErr st =
     (case f st of
        (None, st') \<Rightarrow> (RetryNil, st')
      | (Some (NonRetryableError e), st') \<Rightarrow> (RetryFailed e, st')
      | (Some (RetryableError e), st') \<Rightarrow> RetryContext n f (Some e) st')"

definition TimedOut :: "retry_outcome \<Rightarrow> bool" where
  "TimedOut out = (out = RetryTimeoutError)"

definition retry_error :: "retry_outcome \<Rightarrow> aws_error option" where
  "retry_error out = (case out of RetryFailed e \<Rightarrow> Some e | _ \<Rightarrow> None)"

text \<open>\<^verbatim>\<open>strings.Split(s, sep)\<close> for a one-character separator: one more part than separators.\<close>

fun Split :: "char \<Rightarrow> string \<Rightarrow> string list" where
  "Split sep [] = [[]]"
| "Split sep (c # cs) =
     (if c = sep then [] # Split sep cs
      else (case Split sep cs of [] \<Rightarrow> [[c]] | p # ps \<Rightarrow> (c # p) # ps))"

section \<open>App Mesh: the virtual node resource\<close>

text \<open>
  \<^verbatim>\<open>internal/service/appmesh/virtual_node.go\<close>. The tracked attributes are the top-level
  attributes of the schema. The \<^verbatim>\<open>spec\<close> block is kept abstract: \<open>'s\<close> is its value in the
  configuration, \<open>'w\<close> its wire form, and \<^verbatim>\<open>expandVirtualNodeSpec\<close>, \<^verbatim>\<open>flattenVirtualNodeSpec\<close>
  (not in the sources at hand) are passed in, as are the tag helpers and the propagation
  window.
\<close>

text \<open>
  \<open>NodeRef\<close> holds the fields that name a node in the describe and delete requests,
  \<open>NodeWrite\<close> adds what the create and update requests carry (the update request has no
  tags: the field is empty there). \<open>VirtualNodeData\<close> is the wire object with its metadata
  and status flattened into one record; the two timestamps are numbers, and their
  \<^verbatim>\<open>Format(time.RFC3339)\<close> is passed in. A successful create call answers with the node.
\<close>

type_synonym tagmap = "(string \<times> string) list"

record 's vn_attrs =
  name :: string
  mesh_name :: string
  mesh_owner :: string
  spec :: 's
  arn :: string
  created_date :: string
  last_updated_date :: string
  resource_owner :: string
  tags :: tagmap
  tags_all :: tagmap

record NodeRef =
  MeshName :: "string option"
  MeshOwner :: "string option"
  VirtualNodeName :: "string option"

record 'w NodeWrite = NodeRef +
  Spec :: "'w option"
  Tags :: tagmap

record 'w VirtualNodeData =
  vn_MeshName :: "string option"
  vn_VirtualNodeName :: "string option"
  vn_Arn :: "string option"
  vn_Uid :: "string option"
  vn_MeshOwner :: "string option"
  vn_ResourceOwner :: "string option"
  vn_CreatedAt :: int
  vn_LastUpdatedAt :: int
  vn_Spec :: "'w option"
  vn_Status :: "string option"

record 'w DescribeVirtualNodeOutput =
  VirtualNode :: "'w VirtualNodeData option"

text \<open>
  The remote calls a virtual node operation can make. The history of calls is the state of
  the remote as far as the resource can tell, and each answer may depend on it in any way.
  \<^verbatim>\<open>ListTags\<close> and \<^verbatim>\<open>UpdateTags\<close> are the generated tag helpers, taken as one operation each.
\<close>

datatype 'w appmesh_call =
    CreateVirtualNode "'w NodeWrite"
  | DescribeVirtualNode NodeRef
  | UpdateVirtualNode "'w NodeWrite"
  | DeleteVirtualNode NodeRef
  | ListTags string
  | UpdateTags string tagmap tagmap

record 'w appmesh_conn =
  CreateVirtualNodeWithContext ::
    "'w appmesh_call list \<Rightarrow> 'w NodeWrite \<Rightarrow> aws_error + 'w VirtualNodeData"
  DescribeVirtualNodeWithContext ::
    "'w appmesh_call list \<Rightarrow> NodeRef \<Rightarrow> aws_error + 'w DescribeVirtualNodeOutput option"
  UpdateVirtualNodeWithContext ::
    "'w appmesh_call list \<Rightarrow> 'w NodeWrite \<Rightarrow> aws_error option"
  DeleteVirtualNodeWithContext ::
    "'w appmesh_call list \<Rightarrow> NodeRef \<Rightarrow> aws_error option"
  ListTagsWithContext ::
    "'w appmesh_call list \<Rightarrow> string \<Rightarrow> aws_error + tagmap"
  UpdateTagsWithContext ::
    "'w appmesh_call list \<Rightarrow> string \<Rightarrow> tagmap \<Rightarrow> tagmap \<Rightarrow> aws_error option"

record ('s, 'w) vn_meta = host +
  propagationAttempts :: nat
  expandVirtualNodeSpec :: "'s \<Rightarrow> 'w option"
  flattenVirtualNodeSpec :: "'w option \<Rightarrow> 's"
  FormatRFC3339 :: "int \<Rightarrow> string"
  MergeTags :: "tagmap \<Rightarrow> tagmap"
  IgnoreTags :: "tagmap \<Rightarrow> tagmap"
  RemoveDefaultConfig :: "tagmap \<Rightarrow> tagmap"

definition ErrCodeNotFoundException :: string where
  "ErrCodeNotFoundException = ''NotFoundException''"

definition VirtualNodeStatusCodeDeleted :: string where
  "VirtualNodeStatusCodeDeleted = ''DELETED''"

definition is_mutating :: "'w appmesh_call \<Rightarrow> bool" where
  "is_mutating c = (case c of DescribeVirtualNode r \<Rightarrow> False | ListTags a \<Rightarrow> False | _ \<Rightarrow> True)"

definition describe_request :: "'s vn_attrs \<Rightarrow> NodeRef" where
  "describe_request a =
     \<lparr>MeshName = Some (mesh_name a), MeshOwner = GetOk (mesh_owner a),
      VirtualNodeName = Some (name a)\<rparr>"

text \<open>
  The function handed to \<^verbatim>\<open>RetryContext\<close> in \<^verbatim>\<open>resourceVirtualNodeRead\<close> (lines 1033-1047). Its
  state is the variable \<^verbatim>\<open>resp\<close> it assigns and the remote's history. After a failed call
  \<^verbatim>\<open>resp\<close> is never read, so it is left empty there.
\<close>

definition describe_attempt ::
  "'w appmesh_conn \<Rightarrow> bool \<Rightarrow> NodeRef \<Rightarrow>
   'w DescribeVirtualNodeOutput option \<times> 'w appmesh_call list \<Rightarrow>
   RetryError option \<times> 'w DescribeVirtualNodeOutput option \<times> 'w appmesh_call list"
where
  "describe_attempt conn isNew req st =
     (case st of (resp, h) \<Rightarrow>
        (case DescribeVirtualNodeWithContext conn h req of
           Inl err \<Rightarrow>
             (if isNew \<and> ErrCodeEquals (Some err) ErrCodeNotFoundException
              then (Some (RetryableError err), None, h @ [DescribeVirtualNode req])
              else (Some (NonRetryableError err), None, h @ [DescribeVirtualNode req]))
         | Inr out \<Rightarrow> (None, out, h @ [DescribeVirtualNode req])))"

text \<open>Lines 1031-1051: the retried describe call and the extra call after a timeout.\<close>

definition describe_with_retry ::
  "('s, 'w) vn_meta \<Rightarrow> 'w appmesh_conn \<Rightarrow> bool \<Rightarrow> NodeRef \<Rightarrow> 'w appmesh_call list \<Rightarrow>
   'w DescribeVirtualNodeOutput option \<times> aws_error option \<times> 'w appmesh_call list"
where
  "describe_with_retry meta conn isNew req h =
     (case RetryContext (propagationAttempts meta) (describe_attempt conn isNew req) None (None, h) of
        (out, resp, h1) \<Rightarrow>
          (if TimedOut out
           then (case DescribeVirtualNodeWithContext conn h1 req of
                   Inl err \<Rightarrow> (None, Some err, h1 @ [DescribeVirtualNode req])
                 | Inr r \<Rightarrow> (r, None, h1 @ [DescribeVirtualNode req]))
           else (resp, retry_error out, h1)))"

text \<open>Lines 1077-1107: the projection of the wire object into the tracked attributes.\<close>

definition set_virtual_node ::
  "('s, 'w) vn_meta \<Rightarrow> 'w appmesh_conn \<Rightarrow> 'w VirtualNodeData \<Rightarrow> 's vn_attrs ResourceData \<Rightarrow>
   'w appmesh_call list \<Rightarrow> Diagnostics \<times> 's vn_attrs ResourceData \<times> 'w appmesh_call list"
where
  "set_virtual_node meta conn vn d h =
     (let arn' = StringValue (vn_Arn vn);
          d1 = d\<lparr>attrs := (attrs d)
                 \<lparr>name := StringValue (vn_VirtualNodeName vn),
                  mesh_name := StringValue (vn_MeshName vn),
                  mesh_owner := StringValue (vn_MeshOwner vn),
                  arn := arn',
                  created_date := FormatRFC3339 meta (vn_CreatedAt vn),
                  last_updated_date := FormatRFC3339 meta (vn_LastUpdatedAt vn),
                  resource_owner := StringValue (vn_ResourceOwner vn)\<rparr>\<rparr>
      in case SetError meta ''spec'' of
           Some e \<Rightarrow> (AppendErrorf [] (''setting spec: '' @ e), d1, h)
         | None \<Rightarrow>
             (let d2 = d1\<lparr>attrs := (attrs d1)\<lparr>spec := flattenVirtualNodeSpec meta (vn_Spec vn)\<rparr>\<rparr>;
                  h1 = h @ [ListTags arn']
              in case ListTagsWithContext conn h arn' of
                   Inl err \<Rightarrow>
                     (AppendErrorf [] (''listing tags for App Mesh virtual node ('' @ arn' @ ''): ''
                        @ ErrorString err), d2, h1)
                 | Inr listed \<Rightarrow>
                     (let tags' = IgnoreTags meta listed
                      in case SetError meta ''tags'' of
                           Some e \<Rightarrow> (AppendErrorf [] (''setting tags: '' @ e), d2, h1)
                         | None \<Rightarrow>
                             (let d3 = d2\<lparr>attrs := (attrs d2)
                                          \<lparr>tags := RemoveDefaultConfig meta tags'\<rparr>\<rparr>
                              in case SetError meta ''tags_all'' of
                                   Some e \<Rightarrow> (AppendErrorf [] (''setting tags_all: '' @ e), d3, h1)
                                 | None \<Rightarrow>
                                     ([], d3\<lparr>attrs := (attrs d3)\<lparr>tags_all := tags'\<rparr>\<rparr>, h1)))))"

definition resourceVirtualNodeRead ::
  "('s, 'w) vn_meta \<Rightarrow> 'w appmesh_conn \<Rightarrow> 's vn_attrs ResourceData \<Rightarrow> 'w appmesh_call list \<Rightarrow>
   Diagnostics \<times> 's vn_attrs ResourceData \<times> 'w appmesh_call list"
where
  "resourceVirtualNodeRead meta conn d h =
     (case describe_with_retry meta conn (IsNewResource d) (describe_request (attrs d)) h of
        (resp, err, h1) \<Rightarrow>
          if \<not> IsNewResource d \<and> ErrCodeEquals err ErrCodeNotFoundException
          then ([], d\<lparr>Id := []\<rparr>, h1)
          else (case err of
                  Some e \<Rightarrow>
                    (AppendErrorf [] (''reading App Mesh Virtual Node: '' @ ErrorString e), d, h1)
                | None \<Rightarrow>
                    (case (case resp of None \<Rightarrow> None | Some r \<Rightarrow> VirtualNode r) of
                       None \<Rightarrow>
                         (AppendErrorf [] ''reading App Mesh Virtual Node: empty response'', d, h1)
                     | Some vn \<Rightarrow>
                         if StringValue (vn_Status vn) = VirtualNodeStatusCodeDeleted
                         then (if IsNewResource d
                               then (AppendErrorf []
                                       (''reading App Mesh Virtual Node: ''
                                          @ StringValue (vn_Status vn) @ '' after creation''), d, h1)
                               else ([], d\<lparr>Id := []\<rparr>, h1))
                         else set_virtual_node meta conn vn d h1)))"

definition resourceVirtualNodeCreate ::
  "('s, 'w) vn_meta \<Rightarrow> 'w appmesh_conn \<Rightarrow> 's vn_attrs ResourceData \<Rightarrow> 'w appmesh_call list \<Rightarrow>
   Diagnostics \<times> 's vn_attrs ResourceData \<times> 'w appmesh_call list"
where
  "resourceVirtualNodeCreate meta conn d h =
     (let req = \<lparr>MeshName = Some (mesh_name (attrs d)), MeshOwner = GetOk (mesh_owner (attrs d)),
                 VirtualNodeName = Some (name (attrs d)),
                 Spec = expandVirtualNodeSpec meta (spec (attrs d)),
                 Tags = MergeTags meta (tags (attrs d))\<rparr>;
          h1 = h @ [CreateVirtualNode req]
      in case CreateVirtualNodeWithContext conn h req of
           Inl err \<Rightarrow>
             (AppendErrorf [] (''creating App Mesh virtual node: '' @ ErrorString err), d, h1)
         | Inr vn \<Rightarrow>
             resourceVirtualNodeRead meta conn (d\<lparr>Id := StringValue (vn_Uid vn)\<rparr>) h1)"


definition resourceVirtualNodeDelete ::
  "'w appmesh_conn \<Rightarrow> 's vn_attrs ResourceData \<Rightarrow> 'w appmesh_call list \<Rightarrow>
   Diagnostics \<times> 's vn_attrs ResourceData \<times> 'w appmesh_call list"
where
  "resourceVirtualNodeDelete conn d h =
     (let req = \<lparr>MeshName = Some (mesh_name (attrs d)), MeshOwner = None,
                 VirtualNodeName = Some (name (attrs d))\<rparr>;
          err = DeleteVirtualNodeWithContext conn h req;
          h1 = h @ [DeleteVirtualNode req]
      in if ErrCodeEquals err ErrCodeNotFoundException then ([], d, h1)
         else (case err of
                 Some e \<Rightarrow>
                   (AppendErrorf [] (''deleting App Mesh virtual node ('' @ Id d @ ''): ''
                      @ ErrorString e), d, h1)
               | None \<Rightarrow> ([], d, h1)))"

text \<open>
  \<^verbatim>\<open>resourceVirtualNodeImport\<close> returns the resource data or an error. Dereferencing
  \<^verbatim>\<open>resp.VirtualNode\<close> without the nil check that Read has is a panic on an empty answer.
\<close>

datatype import_error =
    WrongFormat string
  | ImportRemoteError aws_error
  | ImportNilDereference

definition resourceVirtualNodeImport ::
  "'w appmesh_conn \<Rightarrow> 's vn_attrs ResourceData \<Rightarrow> 'w appmesh_call list \<Rightarrow>
   (import_error + 's vn_attrs ResourceData) \<times> 'w appmesh_call list"
where
  "resourceVirtualNodeImport conn d h =
     (let parts = Split CHR ''/'' (Id d)
      in if length parts \<noteq> 2
         then (Inl (WrongFormat (''wrong format of import ID ('' @ Id d
                 @ ''), use: 'mesh-name/virtual-node-name' '')), h)
         else
           (let mesh = parts ! 0;
                nm = parts ! 1;
                req = \<lparr>MeshName = Some mesh, MeshOwner = None, VirtualNodeName = Some nm\<rparr>;
                h1 = h @ [DescribeVirtualNode req]
            in case DescribeVirtualNodeWithContext conn h req of
                 Inl err \<Rightarrow> (Inl (ImportRemoteError err), h1)
               | Inr resp \<Rightarrow>
                   (case (case resp of None \<Rightarrow> None | Some r \<Rightarrow> VirtualNode r) of
                      None \<Rightarrow> (Inl ImportNilDereference, h1)
                    | Some vn \<Rightarrow>
                        (Inr (d\<lparr>Id := StringValue (vn_Uid vn),
                                attrs := (attrs d)\<lparr>name := StringValue (vn_VirtualNodeName vn),
                                                   mesh_name := StringValue (vn_MeshName vn)\<rparr>\<rparr>),
                         h1))))"

section \<open>Transfer: the access resource\<close>

text \<open>
  \<^verbatim>\<open>internal/service/transfer/access.go\<close>. The tracked attributes are those of the schema.
  The create and update requests of the SDK have the same fields, so one record serves both.
\<close>

record home_directory_mapping =
  entry :: string
  target :: string

record posix_profile_block =
  gid :: int
  uid :: int
  secondary_gids :: "int list"

record access_attrs =
  external_id :: string
  home_directory :: string
  home_directory_mappings :: "home_directory_mapping list"
  home_directory_type :: string
  policy :: string
  posix_profile :: "posix_profile_block list"
  role :: string
  server_id :: string

record HomeDirectoryMapEntry =
  Entry :: "string option"
  Target :: "string option"

record PosixProfile =
  Gid :: "int option"
  Uid :: "int option"
  SecondaryGids :: "int list"

record AccessInput =
  ExternalId :: "string option"
  ServerId :: "string option"
  HomeDirectory :: "string option"
  HomeDirectoryMappings :: "HomeDirectoryMapEntry list option"
  HomeDirectoryType :: "string option"
  Policy :: "string option"
  PosixProfile :: "PosixProfile option"
  Role :: "string option"

record DescribedAccess =
  da_ExternalId :: "string option"
  da_HomeDirectory :: "string option"
  da_HomeDirectoryMappings :: "HomeDirectoryMapEntry list"
  da_HomeDirectoryType :: "string option"
  da_Policy :: "string option"
  da_PosixProfile :: "PosixProfile option"
  da_Role :: "string option"

text \<open>
  \<^verbatim>\<open>FindAccessByServerIDAndExternalID\<close> is not in the sources at hand; it is an operation of
  the remote here. It answers with the object, with a \<^verbatim>\<open>resource.NotFoundError\<close> (the error
  that \<^verbatim>\<open>tfresource.NotFound\<close> recognises) or with another error.
\<close>

datatype find_error = NotFoundError string | FindError aws_error

definition NotFound :: "find_error option \<Rightarrow> bool" where
  "NotFound err = (case err of Some (NotFoundError m) \<Rightarrow> True | _ \<Rightarrow> False)"

definition FindErrorString :: "find_error \<Rightarrow> string" where
  "FindErrorString e = (case e of NotFoundError m \<Rightarrow> m | FindError a \<Rightarrow> ErrorString a)"

datatype access_call =
    CreateAccess AccessInput
  | FindAccess string string
  | UpdateAccess AccessInput
  | DeleteAccess string string

record access_conn =
  CreateAccessWithContext :: "access_call list \<Rightarrow> AccessInput \<Rightarrow> aws_error option"
  FindAccessByServerIDAndExternalID ::
    "access_call list \<Rightarrow> string \<Rightarrow> string \<Rightarrow> find_error + DescribedAccess"
  UpdateAccessWithContext :: "access_call list \<Rightarrow> AccessInput \<Rightarrow> aws_error option"
  DeleteAccessWithContext :: "access_call list \<Rightarrow> string \<Rightarrow> string \<Rightarrow> aws_error option"

text \<open>
  The functions of the repository and of the SDK that \<^verbatim>\<open>access.go\<close> calls and that are not in
  the sources at hand are passed in: the ID codec, the expanders and flatteners of the two
  nested blocks, \<^verbatim>\<open>structure.NormalizeJsonString\<close> and \<^verbatim>\<open>verify.PolicyToSet\<close>. A fallible one
  returns its error message on the left.
\<close>

record access_deps = host +
  AccessCreateResourceID :: "string \<Rightarrow> string \<Rightarrow> string"
  AccessParseResourceID :: "string \<Rightarrow> string + (string \<times> string)"
  expandHomeDirectoryMappings :: "home_directory_mapping list \<Rightarrow> HomeDirectoryMapEntry list"
  flattenHomeDirectoryMappings :: "HomeDirectoryMapEntry list \<Rightarrow> home_directory_mapping list"
  expandUserPOSIXUser :: "posix_profile_block list \<Rightarrow> PosixProfile option"
  flattenUserPOSIXUser :: "PosixProfile option \<Rightarrow> posix_profile_block list"
  NormalizeJsonString :: "string \<Rightarrow> string + string"
  PolicyToSet :: "string \<Rightarrow> string \<Rightarrow> string + string"

definition ErrCodeResourceNotFoundException :: string where
  "ErrCodeResourceNotFoundException = ''ResourceNotFoundException''"


text \<open>
  Lines 128-163 of \<^verbatim>\<open>resourceAccessCreate\<close>: the request built from the configuration. Each
  optional attribute is sent only when \<^verbatim>\<open>d.GetOk\<close> finds it set and not zero.
\<close>

definition create_access_input :: "access_deps \<Rightarrow> access_attrs \<Rightarrow> string + AccessInput" where
  "create_access_input deps a =
     (let input = \<lparr>ExternalId = Some (external_id a), ServerId = Some (server_id a),
                   HomeDirectory = GetOk (home_directory a),
                   HomeDirectoryMappings =
                     (if home_directory_mappings a \<noteq> []
                      then Some (expandHomeDirectoryMappings deps (home_directory_mappings a))
                      else None),
                   HomeDirectoryType = GetOk (home_directory_type a),
                   Policy = None,
                   PosixProfile =
                     (if posix_profile a \<noteq> [] then expandUserPOSIXUser deps (posix_profile a)
                      else None),
                   Role = GetOk (role a)\<rparr>
      in if policy a \<noteq> []
         then (case NormalizeJsonString deps (policy a) of
                 Inl e \<Rightarrow> Inl (''policy ('' @ policy a @ '') is invalid JSON: '' @ e)
               | Inr p \<Rightarrow> Inr (input\<lparr>Policy := Some p\<rparr>))
         else Inr input)"

text \<open>Lines 199-221 of \<^verbatim>\<open>resourceAccessRead\<close>: the attributes set from the wire object.\<close>

definition set_access ::
  "access_deps \<Rightarrow> string \<Rightarrow> DescribedAccess \<Rightarrow> access_attrs ResourceData \<Rightarrow>
   Diagnostics \<times> access_attrs ResourceData"
where
  "set_access deps serverID access d =
     (let d1 = d\<lparr>attrs := (attrs d)\<lparr>external_id := StringValue (da_ExternalId access),
                                     home_directory := StringValue (da_HomeDirectory access)\<rparr>\<rparr>
      in case SetError deps ''home_directory_mappings'' of
           Some e \<Rightarrow> (AppendErrorf [] (''setting home_directory_mappings: '' @ e), d1)
         | None \<Rightarrow>
             (let d2 = d1\<lparr>attrs := (attrs d1)
                          \<lparr>home_directory_mappings :=
                             flattenHomeDirectoryMappings deps (da_HomeDirectoryMappings access),
                           home_directory_type := StringValue (da_HomeDirectoryType access)\<rparr>\<rparr>
              in case SetError deps ''posix_profile'' of
                   Some e \<Rightarrow> (AppendErrorf [] (''setting posix_profile: '' @ e), d2)
                 | None \<Rightarrow>
                     (let d3 = d2\<lparr>attrs := (attrs d2)
                                  \<lparr>posix_profile :=
                                     flattenUserPOSIXUser deps (da_PosixProfile access)\<rparr>\<rparr>
                      in case PolicyToSet deps (policy (attrs d3)) (StringValue (da_Policy access)) of
                           Inl e \<Rightarrow>
                             (AppendErrorf [] (''reading Transfer Access ('' @ Id d @ ''): '' @ e), d3)
                         | Inr policyToSet \<Rightarrow>
                             ([], d3\<lparr>attrs := (attrs d3)\<lparr>policy := policyToSet,
                                                           server_id := serverID\<rparr>\<rparr>))))"

definition resourceAccessRead ::
  "access_deps \<Rightarrow> access_conn \<Rightarrow> access_attrs ResourceData \<Rightarrow> access_call list \<Rightarrow>
   Diagnostics \<times> access_attrs ResourceData \<times> access_call list"
where
  "resourceAccessRead deps conn d h =
     (case AccessParseResourceID deps (Id d) of
        Inl e \<Rightarrow> (AppendErrorf [] (''parsing Transfer Access ID: '' @ e), d, h)
      | Inr (serverID, externalID) \<Rightarrow>
          (let found = FindAccessByServerIDAndExternalID conn h serverID externalID;
               h1 = h @ [FindAccess serverID externalID]
           in case found of
                Inl err \<Rightarrow>
                  if \<not> IsNewResource d \<and> NotFound (Some err)
                  then ([], d\<lparr>Id := []\<rparr>, h1)
                  else (AppendErrorf [] (''reading Transfer Access ('' @ Id d @ ''): ''
                          @ FindErrorString err), d, h1)
              | Inr access \<Rightarrow>
                  (case set_access deps serverID access d of (diags, d') \<Rightarrow> (diags, d', h1))))"

definition resourceAccessCreate ::
  "access_deps \<Rightarrow> access_conn \<Rightarrow> access_attrs ResourceData \<Rightarrow> access_call list \<Rightarrow>
   Diagnostics \<times> access_attrs ResourceData \<times> access_call list"
where
  "resourceAccessCreate deps conn d h =
     (let id = AccessCreateResourceID deps (server_id (attrs d)) (external_id (attrs d))
      in case create_access_input deps (attrs d) of
           Inl e \<Rightarrow> (AppendErrorf [] e, d, h)
         | Inr input \<Rightarrow>
             (case CreateAccessWithContext conn h input of
                Some err \<Rightarrow>
                  (AppendErrorf [] (''creating Transfer Access ('' @ id @ ''): '' @ ErrorString err),
                   d, h @ [CreateAccess input])
              | None \<Rightarrow> resourceAccessRead deps conn (d\<lparr>Id := id\<rparr>) (h @ [CreateAccess input])))"

text \<open>
  Lines 234-266 of \<^verbatim>\<open>resourceAccessUpdate\<close>: the request carries the identity parsed from the
  ID and, of the other attributes, those that \<^verbatim>\<open>d.HasChange\<close> reports.
\<close>

definition update_access_input ::
  "access_deps \<Rightarrow> string \<Rightarrow> string \<Rightarrow> access_attrs ResourceData \<Rightarrow> string + AccessInput"
where
  "update_access_input deps serverID externalID d =
     (let a = attrs d;
          input = \<lparr>ExternalId = Some externalID, ServerId = Some serverID,
                   HomeDirectory =
                     (if HasChange home_directory d then Some (home_directory a) else None),
                   HomeDirectoryMappings =
                     (if HasChange home_directory_mappings d
                      then Some (expandHomeDirectoryMappings deps (home_directory_mappings a))
                      else None),
                   HomeDirectoryType =
                     (if HasChange home_directory_type d then Some (home_directory_type a) else None),
                   Policy = None,
                   PosixProfile =
                     (if HasChange posix_profile d then expandUserPOSIXUser deps (posix_profile a)
                      else None),
                   Role = (if HasChange role d then Some (role a) else None)\<rparr>
      in if HasChange policy d
         then (case NormalizeJsonString deps (policy a) of
                 Inl e \<Rightarrow> Inl (''policy ('' @ policy a @ '') is invalid JSON: '' @ e)
               | Inr p \<Rightarrow> Inr (input\<lparr>Policy := Some p\<rparr>))
         else Inr input)"

definition resourceAccessUpdate ::
  "access_deps \<Rightarrow> access_conn \<Rightarrow> access_attrs ResourceData \<Rightarrow> access_call list \<Rightarrow>
   Diagnostics \<times> access_attrs ResourceData \<times> access_call list"
where
  "resourceAccessUpdate deps conn d h =
     (case AccessParseResourceID deps (Id d) of
        Inl e \<Rightarrow> (AppendErrorf [] (''parsing Transfer Access ID: '' @ e), d, h)
      | Inr (serverID, externalID) \<Rightarrow>
          (case update_access_input deps serverID externalID d of
             Inl e \<Rightarrow> (AppendErrorf [] e, d, h)
           | Inr input \<Rightarrow>
               (case UpdateAccessWithContext conn h input of
                  Some err \<Rightarrow>
                    (AppendErrorf [] (''updating Transfer Access ('' @ Id d @ ''): ''
                       @ ErrorString err), d, h @ [UpdateAccess input])
                | None \<Rightarrow> resourceAccessRead deps conn d (h @ [UpdateAccess input]))))"

definition resourceAccessDelete ::
  "access_deps \<Rightarrow> access_conn \<Rightarrow> access_attrs ResourceData \<Rightarrow> access_call list \<Rightarrow>
   Diagnostics \<times> access_attrs ResourceData \<times> access_call list"
where
  "resourceAccessDelete deps conn d h =
     (case AccessParseResourceID deps (Id d) of
        Inl e \<Rightarrow> (AppendErrorf [] (''parsing Transfer Access ID: '' @ e), d, h)
      | Inr (serverID, externalID) \<Rightarrow>
          (let err = DeleteAccessWithContext conn h externalID serverID;
               h1 = h @ [DeleteAccess externalID serverID]
           in if ErrCodeEquals err ErrCodeResourceNotFoundException then ([], d, h1)
              else (case err of
                      Some e \<Rightarrow>
                        (AppendErrorf [] (''deleting Transfer Access ('' @ Id d @ ''): ''
                           @ ErrorString e), d, h1)
                    | None \<Rightarrow> ([], d, h1))))"

text \<open>
  The importer of the access resource is the SDK's \<^verbatim>\<open>schema.ImportStatePassthroughContext\<close>:
  it hands the resource data back as it is, the ID being the reference the user gave, and
  the host then calls Read.
\<close>

definition ImportStatePassthroughContext :: "'a ResourceData \<Rightarrow> import_error + 'a ResourceData" where
  "ImportStatePassthroughContext d = Inr d"

definition access_import_then_read ::
  "access_deps \<Rightarrow> access_conn \<Rightarrow> access_attrs ResourceData \<Rightarrow> access_call list \<Rightarrow>
   Diagnostics \<times> access_attrs ResourceData \<times> access_call list"
where
  "access_import_then_read deps conn d h =
     (case ImportStatePassthroughContext d of
        Inl e \<Rightarrow> (AppendErrorf [] ''import failed'', d, h)
      | Inr d' \<Rightarrow> resourceAccessRead deps conn d' h)"

section \<open>The parts of the access resource that are outside the sources at hand\<close>

text \<open>
  Modelled from the spec: \<^verbatim>\<open>AccessCreateResourceID\<close> is missing. The identity is derived "by
  deterministically concatenating natural-key fields with a fixed, documented separator
  (e.g. /)"; \<^verbatim>\<open>resourceAccessCreate\<close> passes the server id first.
\<close>

definition spec_AccessCreateResourceID :: "string \<Rightarrow> string \<Rightarrow> string" where
  "spec_AccessCreateResourceID serverID externalID = serverID @ ''/'' @ externalID"

text \<open>
  Modelled from the spec: \<^verbatim>\<open>AccessParseResourceID\<close> is missing. The parser "expects exactly
  two /-separated components - a reference with any other component count is a
  MalformedReference, not silently truncated".
\<close>

definition spec_AccessParseResourceID :: "string \<Rightarrow> string + (string \<times> string)" where
  "spec_AccessParseResourceID ident =
     (let parts = Split CHR ''/'' ident
      in if length parts = 2 then Inr (parts ! 0, parts ! 1)
         else Inl (''unexpected format for ID ('' @ ident @ '')''))"

text \<open>
  Modelled from the spec: \<^verbatim>\<open>expandHomeDirectoryMappings\<close> and \<^verbatim>\<open>flattenHomeDirectoryMappings\<close>
  are missing. Create "maps the configuration tree into the remote API's wire request" and
  Read "projects every wire field back into the Desired-Configuration-shaped attribute tree
  (the inverse of the Create mapping)": entry by entry, in order.
\<close>

definition spec_expandHomeDirectoryMappings ::
  "home_directory_mapping list \<Rightarrow> HomeDirectoryMapEntry list" where
  "spec_expandHomeDirectoryMappings ms =
     map (\<lambda>m. \<lparr>Entry = Some (entry m), Target = Some (target m)\<rparr>) ms"

definition spec_flattenHomeDirectoryMappings ::
  "HomeDirectoryMapEntry list \<Rightarrow> home_directory_mapping list" where
  "spec_flattenHomeDirectoryMappings es =
     map (\<lambda>e. \<lparr>entry = StringValue (Entry e), target = StringValue (Target e)\<rparr>) es"

text \<open>
  Modelled from the spec: \<^verbatim>\<open>expandUserPOSIXUser\<close> and \<^verbatim>\<open>flattenUserPOSIXUser\<close> are missing.
  A nested optional block becomes "a present-or-absent wire substructure (absent block =>
  field omitted, not a null/zero value)", and "nested blocks absent on the wire must flatten
  to absent/empty, never to a block of zero-valued fields". The block list has at most one
  item (\<^verbatim>\<open>MaxItems: 1\<close>); the first one is the block.
\<close>

definition spec_expandUserPOSIXUser :: "posix_profile_block list \<Rightarrow> PosixProfile option" where
  "spec_expandUserPOSIXUser bs =
     (case bs of
        [] \<Rightarrow> None
      | b # rest \<Rightarrow> Some \<lparr>Gid = Some (gid b), Uid = Some (uid b), SecondaryGids = secondary_gids b\<rparr>)"

definition Int64Value :: "int option \<Rightarrow> int" where
  "Int64Value v = (case v of None \<Rightarrow> 0 | Some i \<Rightarrow> i)"

definition spec_flattenUserPOSIXUser :: "PosixProfile option \<Rightarrow> posix_profile_block list" where
  "spec_flattenUserPOSIXUser p =
     (case p of
        None \<Rightarrow> []
      | Some u \<Rightarrow> [\<lparr>gid = Int64Value (Gid u), uid = Int64Value (Uid u),
                    secondary_gids = SecondaryGids u\<rparr>])"

text \<open>
  The dependencies of \<^verbatim>\<open>access.go\<close> with the parts above; the two JSON policy helpers, about
  which the spec says nothing, stay arguments. The host accepts every value it is given.
\<close>

definition spec_deps ::
  "(string \<Rightarrow> string + string) \<Rightarrow> (string \<Rightarrow> string \<Rightarrow> string + string) \<Rightarrow> access_deps" where
  "spec_deps normalizeJson policyToSet =
     \<lparr>SetError = (\<lambda>k. None),
      AccessCreateResourceID = spec_AccessCreateResourceID,
      AccessParseResourceID = spec_AccessParseResourceID,
      expandHomeDirectoryMappings = spec_expandHomeDirectoryMappings,
      flattenHomeDirectoryMappings = spec_flattenHomeDirectoryMappings,
      expandUserPOSIXUser = spec_expandUserPOSIXUser,
      flattenUserPOSIXUser = spec_flattenUserPOSIXUser,
      NormalizeJsonString = normalizeJson,
      PolicyToSet = policyToSet\<rparr>"

text \<open>
  Modelled from the spec: the remote's answer to a read after a create is missing (it is the
  provider's). In the end-to-end scenario of the spec a create is "recorded with those
  fields" and the "subsequent Read returns" them: the described object carries what the
  create request carried. The role is left out, as \<^verbatim>\<open>access.go\<close> notes that it is "currently
  not returned via the API".
\<close>

definition described_of :: "AccessInput \<Rightarrow> DescribedAccess" where
  "described_of input =
     \<lparr>da_ExternalId = ExternalId input,
      da_HomeDirectory = HomeDirectory input,
      da_HomeDirectoryMappings =
        (case HomeDirectoryMappings input of None \<Rightarrow> [] | Some ms \<Rightarrow> ms),
      da_HomeDirectoryType = HomeDirectoryType input,
      da_Policy = Policy input,
      da_PosixProfile = PosixProfile input,
      da_Role = None\<rparr>"

section \<open>The schemas\<close>

text \<open>
  The flags of \<^verbatim>\<open>schema.Schema\<close> that decide how the host treats a changed attribute, for
  the top-level attributes of \<^verbatim>\<open>ResourceAccess()\<close> (lines 31-120) and of
  \<^verbatim>\<open>ResourceVirtualNode()\<close> (lines 38-804; \<^verbatim>\<open>tags\<close> and \<^verbatim>\<open>tags_all\<close> come from the tag
  helpers, an optional and an optional computed map). A flag that the source does not write
  is false.
\<close>

record Schema =
  Required :: bool
  Optional :: bool
  Computed :: bool
  ForceNew :: bool

definition ResourceAccess_Schema :: "(string \<times> Schema) list" where
  "ResourceAccess_Schema =
     [(''external_id'', \<lparr>Required = True, Optional = False, Computed = False, ForceNew = False\<rparr>),
      (''home_directory'', \<lparr>Required = False, Optional = True, Computed = False, ForceNew = False\<rparr>),
      (''home_directory_mappings'',
         \<lparr>Required = False, Optional = True, Computed = False, ForceNew = False\<rparr>),
      (''home_directory_type'',
         \<lparr>Required = False, Optional = True, Computed = False, ForceNew = False\<rparr>),
      (''policy'', \<lparr>Required = False, Optional = True, Computed = False, ForceNew = False\<rparr>),
      (''posix_profile'', \<lparr>Required = False, Optional = True, Computed = False, ForceNew = False\<rparr>),
      (''role'', \<lparr>Required = False, Optional = True, Computed = False, ForceNew = False\<rparr>),
      (''server_id'', \<lparr>Required = True, Optional = False, Computed = False, ForceNew = True\<rparr>)]"

definition ResourceVirtualNode_Schema :: "(string \<times> Schema) list" where
  "ResourceVirtualNode_Schema =
     [(''name'', \<lparr>Required = True, Optional = False, Computed = False, ForceNew = True\<rparr>),
      (''mesh_name'', \<lparr>Required = True, Optional = False, Computed = False, ForceNew = True\<rparr>),
      (''mesh_owner'', \<lparr>Required = False, Optional = True, Computed = True, ForceNew = True\<rparr>),
      (''spec'', \<lparr>Required = True, Optional = False, Computed = False, ForceNew = False\<rparr>),
      (''arn'', \<lparr>Required = False, Optional = False, Computed = True, ForceNew = False\<rparr>),
      (''created_date'', \<lparr>Required = False, Optional = False, Computed = True, ForceNew = False\<rparr>),
      (''last_updated_date'',
         \<lparr>Required = False, Optional = False, Computed = True, ForceNew = False\<rparr>),
      (''resource_owner'', \<lparr>Required = False, Optional = False, Computed = True, ForceNew = False\<rparr>),
      (''tags'', \<lparr>Required = False, Optional = True, Computed = False, ForceNew = False\<rparr>),
      (''tags_all'', \<lparr>Required = False, Optional = True, Computed = True, ForceNew = False\<rparr>)]"

text \<open>
  The attributes from which the identity is built. \<^verbatim>\<open>resourceAccessCreate\<close> builds the ID
  from \<^verbatim>\<open>server_id\<close> and \<^verbatim>\<open>external_id\<close> (lines 128-130), and every later call addresses the
  remote object by the two parts parsed back from it. The virtual node's ID is the
  provider's Uid, and every remote call addresses the node by \<^verbatim>\<open>mesh_name\<close> and \<^verbatim>\<open>name\<close>.
\<close>

definition access_identity_attributes :: "string list" where
  "access_identity_attributes = [''server_id'', ''external_id'']"

definition virtual_node_identity_attributes :: "string list" where
  "virtual_node_identity_attributes = [''mesh_name'', ''name'']"

definition is_ForceNew :: "(string \<times> Schema) list \<Rightarrow> string \<Rightarrow> bool" where
  "is_ForceNew sch k = (case map_of sch k of None \<Rightarrow> False | Some s \<Rightarrow> ForceNew s)"

text \<open>
  The host replaces the resource when a changed attribute is \<^verbatim>\<open>ForceNew\<close>; otherwise it
  calls Update with the change.
\<close>

definition RequiresNew :: "(string \<times> Schema) list \<Rightarrow> string list \<Rightarrow> bool" where
  "RequiresNew sch changed = list_ex (is_ForceNew sch) changed"

section \<open>Sample configurations and remotes\<close>

definition meta0 :: "(string, string) vn_meta" where
  "meta0 =
     \<lparr>SetError = (\<lambda>k. None), propagationAttempts = 3,
      expandVirtualNodeSpec = Some,
      flattenVirtualNodeSpec = (\<lambda>w. case w of None \<Rightarrow> [] | Some x \<Rightarrow> x),
      FormatRFC3339 = (\<lambda>t. ''2023-01-01T00:00:00Z''),
      MergeTags = (\<lambda>t. t), IgnoreTags = (\<lambda>t. t), RemoveDefaultConfig = (\<lambda>t. t)\<rparr>"

definition node_attrs0 :: "string vn_attrs" where
  "node_attrs0 =
     \<lparr>name = ''n1'', mesh_name = ''s1'', mesh_owner = [], spec = ''listener-8080'',
      arn = ''arn:n1'', created_date = [], last_updated_date = [], resource_owner = [],
      tags = [], tags_all = []\<rparr>"

definition node_existing :: "string vn_attrs ResourceData" where
  "node_existing = \<lparr>Id = ''uid-1'', IsNewResource = False, prior = node_attrs0, attrs = node_attrs0\<rparr>"

definition node_new :: "string vn_attrs ResourceData" where
  "node_new = \<lparr>Id = ''uid-1'', IsNewResource = True, prior = node_attrs0, attrs = node_attrs0\<rparr>"

definition node_ref0 :: NodeRef where
  "node_ref0 = \<lparr>MeshName = Some ''s1'', MeshOwner = None, VirtualNodeName = Some ''n1''\<rparr>"

definition not_found :: aws_error where
  "not_found = \<lparr>Code = ''NotFoundException'', Message = ''no such node''\<rparr>"

definition access_denied :: aws_error where
  "access_denied = \<lparr>Code = ''AccessDeniedException'', Message = ''denied''\<rparr>"

definition node_data :: "string \<Rightarrow> string VirtualNodeData" where
  "node_data status =
     \<lparr>vn_MeshName = Some ''s1'', vn_VirtualNodeName = Some ''n1'', vn_Arn = Some ''arn:n1'',
      vn_Uid = Some ''uid-1'', vn_MeshOwner = Some ''111'', vn_ResourceOwner = Some ''111'',
      vn_CreatedAt = 0, vn_LastUpdatedAt = 0, vn_Spec = Some ''listener-8080'',
      vn_Status = Some status\<rparr>"

text \<open>
  A remote whose describe call answers not-found to the first \<open>k\<close> calls of the history and
  then the node with the given status; its delete call succeeds once and then answers
  not-found; its other calls succeed.
\<close>

definition node_conn :: "nat \<Rightarrow> string \<Rightarrow> string appmesh_conn" where
  "node_conn k status =
     \<lparr>CreateVirtualNodeWithContext = (\<lambda>h req. Inr (node_data ''ACTIVE'')),
      DescribeVirtualNodeWithContext =
        (\<lambda>h req. if length h < k then Inl not_found
                  else Inr (Some \<lparr>VirtualNode = Some (node_data status)\<rparr>)),
      UpdateVirtualNodeWithContext = (\<lambda>h req. None),
      DeleteVirtualNodeWithContext =
        (\<lambda>h req. if DeleteVirtualNode req \<in> set h then Some not_found else None),
      ListTagsWithContext = (\<lambda>h a. Inr []),
      UpdateTagsWithContext = (\<lambda>h a old new. None)\<rparr>"

definition node_conn_denied :: "string appmesh_conn" where
  "node_conn_denied =
     (node_conn 0 ''ACTIVE'')\<lparr>DeleteVirtualNodeWithContext := (\<lambda>h req. Some access_denied)\<rparr>"

definition deps0 :: access_deps where
  "deps0 = spec_deps Inr (\<lambda>exist new. Inr new)"

definition access_attrs0 :: access_attrs where
  "access_attrs0 =
     \<lparr>external_id = ''S-1-1'', home_directory = ''/home'', home_directory_mappings = [],
      home_directory_type = ''PATH'', policy = [], posix_profile = [],
      role = ''arn:aws:iam::1:role/r'', server_id = ''s-1''\<rparr>"

definition access_existing :: "access_attrs ResourceData" where
  "access_existing =
     \<lparr>Id = ''s-1/S-1-1'', IsNewResource = False, prior = access_attrs0, attrs = access_attrs0\<rparr>"

definition access_new :: "access_attrs ResourceData" where
  "access_new =
     \<lparr>Id = ''s-1/S-1-1'', IsNewResource = True, prior = access_attrs0, attrs = access_attrs0\<rparr>"

definition resource_not_found :: aws_error where
  "resource_not_found = \<lparr>Code = ''ResourceNotFoundException'', Message = ''no such access''\<rparr>"

text \<open>
  A remote for the access resource: it has no object until a create request is in the
  history, and then describes what that request carried; a lookup with an empty history is
  answered with not-found. Its delete call succeeds once and then answers not-found.
\<close>

fun last_created :: "access_call list \<Rightarrow> AccessInput option" where
  "last_created [] = None"
| "last_created (c # cs) =
     (case last_created cs of
        Some i \<Rightarrow> Some i
      | None \<Rightarrow> (case c of CreateAccess i \<Rightarrow> Some i | _ \<Rightarrow> None))"

definition echo_conn :: access_conn where
  "echo_conn =
     \<lparr>CreateAccessWithContext = (\<lambda>h input. None),
      FindAccessByServerIDAndExternalID =
        (\<lambda>h serverID externalID.
           case last_created h of
             None \<Rightarrow> Inl (NotFoundError ''couldn't find resource'')
           | Some i \<Rightarrow> Inr (described_of i)),
      UpdateAccessWithContext = (\<lambda>h input. None),
      DeleteAccessWithContext =
        (\<lambda>h externalID serverID.
           if DeleteAccess externalID serverID \<in> set h then Some resource_not_found else None)\<rparr>"

definition echo_conn_denied :: access_conn where
  "echo_conn_denied =
     echo_conn\<lparr>DeleteAccessWithContext := (\<lambda>h externalID serverID. Some access_denied)\<rparr>"

text \<open>A remote that does not have the access at the first lookup and has it from then on.\<close>

definition described0 :: DescribedAccess where
  "described0 =
     \<lparr>da_ExternalId = Some ''S-1-1'', da_HomeDirectory = Some ''/home'',
      da_HomeDirectoryMappings = [], da_HomeDirectoryType = Some ''PATH'', da_Policy = None,
      da_PosixProfile = None, da_Role = None\<rparr>"

definition late_conn :: access_conn where
  "late_conn =
     echo_conn\<lparr>FindAccessByServerIDAndExternalID :=
       (\<lambda>h serverID externalID.
          if h = [] then Inl (NotFoundError ''couldn't find resource'') else Inr described0)\<rparr>"

text \<open>A remote whose access has another home directory, and that does return a role.\<close>

definition described1 :: DescribedAccess where
  "described1 =
     described0\<lparr>da_HomeDirectory := Some ''/data'',
                 da_Role := Some ''arn:aws:iam::1:role/other''\<rparr>"

definition role_conn :: access_conn where
  "role_conn =
     echo_conn\<lparr>FindAccessByServerIDAndExternalID := (\<lambda>h serverID externalID. Inr described1)\<rparr>"

text \<open>
  The vocabulary of update minimality. \<open>access_key_input\<close> is the update request that names
  the object and carries no attribute group; \<open>access_changes\<close> lists, for the six groups that
  \<^verbatim>\<open>resourceAccessUpdate\<close> inspects, in the order of the source, whether the group changed.
\<close>

definition access_key_input :: "string \<Rightarrow> string \<Rightarrow> AccessInput" where
  "access_key_input serverID externalID =
     \<lparr>ExternalId = Some externalID, ServerId = Some serverID, HomeDirectory = None,
      HomeDirectoryMappings = None, HomeDirectoryType = None, Policy = None,
      PosixProfile = None, Role = None\<rparr>"

definition access_changes :: "access_attrs ResourceData \<Rightarrow> bool list" where
  "access_changes d =
     [HasChange home_directory d, HasChange home_directory_mappings d,
      HasChange home_directory_type d, HasChange policy d, HasChange posix_profile d,
      HasChange role d]"


definition access_renamed :: "access_attrs ResourceData" where
  "access_renamed =
     \<lparr>Id = ''s-1/S-1-1'', IsNewResource = False, prior = access_attrs0,
      attrs = access_attrs0\<lparr>external_id := ''S-1-2''\<rparr>\<rparr>"

text \<open>A configuration of an access with both nested blocks and a policy, about to be created.\<close>

definition access_attrs1 :: access_attrs where
  "access_attrs1 =
     \<lparr>external_id = ''S-1-1'', home_directory = [],
      home_directory_mappings = [\<lparr>entry = ''/'', target = ''/bucket/home''\<rparr>],
      home_directory_type = ''LOGICAL'', policy = ''{}'',
      posix_profile = [\<lparr>gid = 0, uid = 0, secondary_gids = [100, 101]\<rparr>],
      role = ''arn:aws:iam::1:role/r'', server_id = ''s-1''\<rparr>"

definition access_planned :: "access_attrs \<Rightarrow> access_attrs ResourceData" where
  "access_planned cfg = \<lparr>Id = [], IsNewResource = True, prior = cfg, attrs = cfg\<rparr>"

section \<open>Properties of the WAF list-pages functions\<close>





lemma listPages_continue_step:
  assumes "conn h input = Inr out"
    and "continues (input, out, c)"
    and "c = fn (h @ [Fetch input (Inr out)]) out (StringValue (out_NextMarker out) = [])"
  shows "listPages conn fn input h =
         listPages conn fn (input\<lparr>in_NextMarker := out_NextMarker out\<rparr>)
           (h @ round_events (input, out, c))"
  using assms by (subst listPages.simps) (auto simp: Let_def continues_def round_events_def)



section \<open>Properties of the resource operations\<close>

subsection \<open>The retried describe call of the virtual node\<close>

lemma describe_with_retry_existing:
  "describe_with_retry meta conn False req h =
     (case DescribeVirtualNodeWithContext conn h req of
        Inl e \<Rightarrow> (None, Some e, h @ [DescribeVirtualNode req])
      | Inr r \<Rightarrow> (r, None, h @ [DescribeVirtualNode req]))"
proof (cases "propagationAttempts meta")
  case 0
  then show ?thesis
    by (simp add: describe_with_retry_def TimedOut_def split: sum.splits)
next
  case (Suc n)
  then show ?thesis
    by (simp add: describe_with_retry_def describe_attempt_def TimedOut_def retry_error_def
        split: sum.splits)
qed

lemma retry_transient_then_answer:
  assumes "\<forall>i<k. \<exists>e. DescribeVirtualNodeWithContext conn (h @ replicate i (DescribeVirtualNode req)) req = Inl e
                     \<and> Code e = ErrCodeNotFoundException"
    and "DescribeVirtualNodeWithContext conn (h @ replicate k (DescribeVirtualNode req)) req = Inr out"
    and "k < n"
  shows "RetryContext n (describe_attempt conn True req) lastErr (resp, h) =
         (RetryNil, out, h @ replicate (Suc k) (DescribeVirtualNode req))"
  using assms
proof (induction k arbitrary: n h lastErr resp)
  case 0
  then obtain m where n: "n = Suc m" by (cases n) auto
  from 0 show ?case unfolding n
    by (simp add: describe_attempt_def)
next
  case (Suc k)
  then obtain m where n: "n = Suc m" and km: "k < m" by (cases n) auto
  from Suc.prems(1) obtain e where
    e: "DescribeVirtualNodeWithContext conn h req = Inl e" "Code e = ErrCodeNotFoundException"
    by force
  let ?c = "DescribeVirtualNode req"
  have shift: "\<And>i. (h @ [?c]) @ replicate i ?c = h @ replicate (Suc i) ?c"
    by simp
  have tr: "\<forall>i<k. \<exists>e. DescribeVirtualNodeWithContext conn ((h @ [?c]) @ replicate i ?c) req = Inl e
                     \<and> Code e = ErrCodeNotFoundException"
    using Suc.prems(1) unfolding shift by auto
  have ans: "DescribeVirtualNodeWithContext conn ((h @ [?c]) @ replicate k ?c) req = Inr out"
    using Suc.prems(2) unfolding shift .
  have "RetryContext n (describe_attempt conn True req) lastErr (resp, h) =
        RetryContext m (describe_attempt conn True req) (Some e) (None, h @ [?c])"
    unfolding n using e by (simp add: describe_attempt_def ErrCodeEquals_def)
  also have "\<dots> = (RetryNil, out, (h @ [?c]) @ replicate (Suc k) ?c)"
    by (rule Suc.IH[OF tr ans km])
  finally show ?case unfolding shift by (simp add: replicate_app_Cons_same)
qed


subsection \<open>Read on a resource that is gone\<close>

lemma vn_read_existing_absent:
  assumes "\<not> IsNewResource d"
    and "(\<exists>e. DescribeVirtualNodeWithContext conn h (describe_request (attrs d)) = Inl e
              \<and> Code e = ErrCodeNotFoundException)
         \<or> (\<exists>r vn. DescribeVirtualNodeWithContext conn h (describe_request (attrs d)) = Inr (Some r)
              \<and> VirtualNode r = Some vn
              \<and> StringValue (vn_Status vn) = VirtualNodeStatusCodeDeleted)"
  shows "resourceVirtualNodeRead meta conn d h =
         ([], d\<lparr>Id := []\<rparr>, h @ [DescribeVirtualNode (describe_request (attrs d))])"
  using assms
  by (auto simp add: resourceVirtualNodeRead_def describe_with_retry_existing ErrCodeEquals_def)

lemma access_read_existing_absent:
  assumes "\<not> IsNewResource d"
    and "AccessParseResourceID deps (Id d) = Inr (serverID, externalID)"
    and "FindAccessByServerIDAndExternalID conn h serverID externalID = Inl (NotFoundError m)"
  shows "resourceAccessRead deps conn d h = ([], d\<lparr>Id := []\<rparr>, h @ [FindAccess serverID externalID])"
  using assms by (simp add: resourceAccessRead_def NotFound_def)


text \<open>
  C1. A resource that already existed in tracked state (not newly created): when the virtual
  node's Read gets a not-found answer or a node whose status is DELETED, and when the
  access's Read gets a not-found answer, Read clears the identity and returns no diagnostics.
\<close>

theorem read_reports_absence_of_existing_resource:
  "(\<not> IsNewResource d
      \<and> ((\<exists>e. DescribeVirtualNodeWithContext conn h (describe_request (attrs d)) = Inl e
                \<and> Code e = ErrCodeNotFoundException)
         \<or> (\<exists>r vn. DescribeVirtualNodeWithContext conn h (describe_request (attrs d)) = Inr (Some r)
                \<and> VirtualNode r = Some vn
                \<and> StringValue (vn_Status vn) = VirtualNodeStatusCodeDeleted))
    \<longrightarrow> resourceVirtualNodeRead meta conn d h =
          ([], d\<lparr>Id := []\<rparr>, h @ [DescribeVirtualNode (describe_request (attrs d))]))
   \<and> (\<not> IsNewResource a
      \<and> AccessParseResourceID deps (Id a) = Inr (serverID, externalID)
      \<and> FindAccessByServerIDAndExternalID aconn ah serverID externalID = Inl (NotFoundError m)
    \<longrightarrow> resourceAccessRead deps aconn a ah =
          ([], a\<lparr>Id := []\<rparr>, ah @ [FindAccess serverID externalID]))"
  using vn_read_existing_absent[of d conn h meta]
    access_read_existing_absent[of a deps serverID externalID aconn ah m]
  by blast

lemma parse_sample: "spec_AccessParseResourceID ''s-1/S-1-1'' = Inr (''s-1'', ''S-1-1'')"
  by (simp add: spec_AccessParseResourceID_def)

theorem read_reports_absence_of_existing_resource_witness:
  "resourceVirtualNodeRead meta0 (node_conn 1 ''ACTIVE'') node_existing [] =
     ([], node_existing\<lparr>Id := []\<rparr>, [DescribeVirtualNode node_ref0])
   \<and> resourceVirtualNodeRead meta0 (node_conn 0 ''DELETED'') node_existing [] =
     ([], node_existing\<lparr>Id := []\<rparr>, [DescribeVirtualNode node_ref0])
   \<and> resourceAccessRead deps0 echo_conn access_existing [] =
     ([], access_existing\<lparr>Id := []\<rparr>, [FindAccess ''s-1'' ''S-1-1''])"
proof -
  have req: "describe_request (attrs node_existing) = node_ref0"
    by (simp add: describe_request_def node_existing_def node_attrs0_def node_ref0_def GetOk_def)
  have new: "\<not> IsNewResource node_existing" "\<not> IsNewResource access_existing"
    by (simp_all add: node_existing_def access_existing_def)
  have gone: "DescribeVirtualNodeWithContext (node_conn 1 ''ACTIVE'') [] node_ref0 = Inl not_found
              \<and> Code not_found = ErrCodeNotFoundException"
    by (simp add: node_conn_def not_found_def ErrCodeNotFoundException_def)
  have deleted: "DescribeVirtualNodeWithContext (node_conn 0 ''DELETED'') [] node_ref0 =
                   Inr (Some \<lparr>VirtualNode = Some (node_data ''DELETED'')\<rparr>)
                 \<and> StringValue (vn_Status (node_data ''DELETED'')) = VirtualNodeStatusCodeDeleted"
    by (simp add: node_conn_def node_data_def StringValue_def VirtualNodeStatusCodeDeleted_def)
  have parse: "AccessParseResourceID deps0 (Id access_existing) = Inr (''s-1'', ''S-1-1'')"
    by (simp add: deps0_def spec_deps_def access_existing_def parse_sample)
  have find: "FindAccessByServerIDAndExternalID echo_conn [] ''s-1'' ''S-1-1'' =
                Inl (NotFoundError ''couldn't find resource'')"
    by (simp add: echo_conn_def)
  from read_reports_absence_of_existing_resource
         [of node_existing "node_conn 1 ''ACTIVE''" "[]" meta0 access_existing deps0
             "''s-1''" "''S-1-1''" echo_conn "[]" "''couldn't find resource''"]
       read_reports_absence_of_existing_resource
         [of node_existing "node_conn 0 ''DELETED''" "[]" meta0 access_existing deps0
             "''s-1''" "''S-1-1''" echo_conn "[]" "''couldn't find resource''"]
       req new gone deleted parse find
  show ?thesis by simp
qed

subsection \<open>Delete\<close>

lemma vn_delete_result:
  "resourceVirtualNodeDelete conn d h =
     (let req = \<lparr>MeshName = Some (mesh_name (attrs d)), MeshOwner = None,
                 VirtualNodeName = Some (name (attrs d))\<rparr>
      in case DeleteVirtualNodeWithContext conn h req of
           None \<Rightarrow> ([], d, h @ [DeleteVirtualNode req])
         | Some e \<Rightarrow>
             (if Code e = ErrCodeNotFoundException then []
              else AppendErrorf [] (''deleting App Mesh virtual node ('' @ Id d @ ''): ''
                     @ ErrorString e),
              d, h @ [DeleteVirtualNode req]))"
  by (simp add: resourceVirtualNodeDelete_def Let_def ErrCodeEquals_def split: option.splits)

lemma access_delete_result:
  "AccessParseResourceID deps (Id d) = Inr (serverID, externalID) \<Longrightarrow>
   resourceAccessDelete deps conn d h =
     (case DeleteAccessWithContext conn h externalID serverID of
        None \<Rightarrow> ([], d, h @ [DeleteAccess externalID serverID])
      | Some e \<Rightarrow>
          (if Code e = ErrCodeResourceNotFoundException then []
           else AppendErrorf [] (''deleting Transfer Access ('' @ Id d @ ''): '' @ ErrorString e),
           d, h @ [DeleteAccess externalID serverID]))"
  by (simp add: resourceAccessDelete_def Let_def ErrCodeEquals_def split: option.splits)

text \<open>
  C2. Both Delete functions: a NotFound answer of the remote delete call is success, as is no
  error; any other error is reported. So when the remote answers a repeated delete of the
  same identity with NotFound (the object is gone) or with success, the second Delete of two
  in succession returns no diagnostics.
\<close>

theorem delete_not_found_is_success:
  "(let req = \<lparr>MeshName = Some (mesh_name (attrs d)), MeshOwner = None,
               VirtualNodeName = Some (name (attrs d))\<rparr>;
        r1 = DeleteVirtualNodeWithContext conn h req;
        r2 = DeleteVirtualNodeWithContext conn (h @ [DeleteVirtualNode req]) req
    in (r1 = None \<or> ErrCodeEquals r1 ErrCodeNotFoundException
          \<longrightarrow> resourceVirtualNodeDelete conn d h = ([], d, h @ [DeleteVirtualNode req]))
     \<and> (\<forall>e. r1 = Some e \<and> Code e \<noteq> ErrCodeNotFoundException
          \<longrightarrow> fst (resourceVirtualNodeDelete conn d h) =
                [DiagError (''deleting App Mesh virtual node ('' @ Id d @ ''): '' @ ErrorString e)])
     \<and> (r2 = None \<or> ErrCodeEquals r2 ErrCodeNotFoundException
          \<longrightarrow> (case resourceVirtualNodeDelete conn d h of
                 (diags1, d1, h1) \<Rightarrow> fst (resourceVirtualNodeDelete conn d1 h1) = [])))
   \<and> (AccessParseResourceID deps (Id a) = Inr (serverID, externalID) \<longrightarrow>
      (let r1 = DeleteAccessWithContext aconn ah externalID serverID;
           r2 = DeleteAccessWithContext aconn (ah @ [DeleteAccess externalID serverID])
                  externalID serverID
       in (r1 = None \<or> ErrCodeEquals r1 ErrCodeResourceNotFoundException
             \<longrightarrow> resourceAccessDelete deps aconn a ah =
                   ([], a, ah @ [DeleteAccess externalID serverID]))
        \<and> (\<forall>e. r1 = Some e \<and> Code e \<noteq> ErrCodeResourceNotFoundException
             \<longrightarrow> fst (resourceAccessDelete deps aconn a ah) =
                   [DiagError (''deleting Transfer Access ('' @ Id a @ ''): '' @ ErrorString e)])
        \<and> (r2 = None \<or> ErrCodeEquals r2 ErrCodeResourceNotFoundException
             \<longrightarrow> (case resourceAccessDelete deps aconn a ah of
                    (diags1, a1, h1) \<Rightarrow> fst (resourceAccessDelete deps aconn a1 h1) = []))))"
proof (rule conjI)
  show "let req = \<lparr>MeshName = Some (mesh_name (attrs d)), MeshOwner = None,
               VirtualNodeName = Some (name (attrs d))\<rparr>;
        r1 = DeleteVirtualNodeWithContext conn h req;
        r2 = DeleteVirtualNodeWithContext conn (h @ [DeleteVirtualNode req]) req
    in (r1 = None \<or> ErrCodeEquals r1 ErrCodeNotFoundException
          \<longrightarrow> resourceVirtualNodeDelete conn d h = ([], d, h @ [DeleteVirtualNode req]))
     \<and> (\<forall>e. r1 = Some e \<and> Code e \<noteq> ErrCodeNotFoundException
          \<longrightarrow> fst (resourceVirtualNodeDelete conn d h) =
                [DiagError (''deleting App Mesh virtual node ('' @ Id d @ ''): '' @ ErrorString e)])
     \<and> (r2 = None \<or> ErrCodeEquals r2 ErrCodeNotFoundException
          \<longrightarrow> (case resourceVirtualNodeDelete conn d h of
                 (diags1, d1, h1) \<Rightarrow> fst (resourceVirtualNodeDelete conn d1 h1) = []))"
    by (auto simp add: vn_delete_result Let_def ErrCodeEquals_def AppendErrorf_def
        split: option.splits)
next
  show "AccessParseResourceID deps (Id a) = Inr (serverID, externalID) \<longrightarrow>
      (let r1 = DeleteAccessWithContext aconn ah externalID serverID;
           r2 = DeleteAccessWithContext aconn (ah @ [DeleteAccess externalID serverID])
                  externalID serverID
       in (r1 = None \<or> ErrCodeEquals r1 ErrCodeResourceNotFoundException
             \<longrightarrow> resourceAccessDelete deps aconn a ah =
                   ([], a, ah @ [DeleteAccess externalID serverID]))
        \<and> (\<forall>e. r1 = Some e \<and> Code e \<noteq> ErrCodeResourceNotFoundException
             \<longrightarrow> fst (resourceAccessDelete deps aconn a ah) =
                   [DiagError (''deleting Transfer Access ('' @ Id a @ ''): '' @ ErrorString e)])
        \<and> (r2 = None \<or> ErrCodeEquals r2 ErrCodeResourceNotFoundException
             \<longrightarrow> (case resourceAccessDelete deps aconn a ah of
                    (diags1, a1, h1) \<Rightarrow> fst (resourceAccessDelete deps aconn a1 h1) = [])))"
    by (auto simp add: access_delete_result Let_def ErrCodeEquals_def AppendErrorf_def
        split: option.splits)
qed


theorem delete_not_found_is_success_witness:
  "resourceVirtualNodeDelete (node_conn 0 ''ACTIVE'') node_existing [] =
     ([], node_existing, [DeleteVirtualNode node_ref0])
   \<and> fst (resourceVirtualNodeDelete (node_conn 0 ''ACTIVE'') node_existing
            [DeleteVirtualNode node_ref0]) = []
   \<and> fst (resourceVirtualNodeDelete node_conn_denied node_existing []) =
       [DiagError ''deleting App Mesh virtual node (uid-1): AccessDeniedException: denied'']
   \<and> resourceAccessDelete deps0 echo_conn access_existing [] =
       ([], access_existing, [DeleteAccess ''S-1-1'' ''s-1''])
   \<and> fst (resourceAccessDelete deps0 echo_conn access_existing [DeleteAccess ''S-1-1'' ''s-1'']) = []
   \<and> fst (resourceAccessDelete deps0 echo_conn_denied access_existing []) =
       [DiagError ''deleting Transfer Access (s-1/S-1-1): AccessDeniedException: denied'']"
proof -
  have req: "\<lparr>MeshName = Some (mesh_name (attrs node_existing)), MeshOwner = None,
              VirtualNodeName = Some (name (attrs node_existing))\<rparr> = node_ref0"
    by (simp add: node_existing_def node_attrs0_def node_ref0_def)
  have parse: "AccessParseResourceID deps0 (Id access_existing) = Inr (''s-1'', ''S-1-1'')"
    by (simp add: deps0_def spec_deps_def access_existing_def parse_sample)
  have ids: "Id node_existing = ''uid-1''" "Id access_existing = ''s-1/S-1-1''"
    by (simp_all add: node_existing_def access_existing_def)
  have answers:
    "DeleteVirtualNodeWithContext (node_conn 0 ''ACTIVE'') [] node_ref0 = None"
    "DeleteVirtualNodeWithContext (node_conn 0 ''ACTIVE'') [DeleteVirtualNode node_ref0] node_ref0
       = Some not_found"
    "DeleteVirtualNodeWithContext node_conn_denied [] node_ref0 = Some access_denied"
    "DeleteAccessWithContext echo_conn [] ''S-1-1'' ''s-1'' = None"
    "DeleteAccessWithContext echo_conn [DeleteAccess ''S-1-1'' ''s-1''] ''S-1-1'' ''s-1''
       = Some resource_not_found"
    "DeleteAccessWithContext echo_conn_denied [] ''S-1-1'' ''s-1'' = Some access_denied"
    by (simp_all add: node_conn_def node_conn_denied_def echo_conn_def echo_conn_denied_def)
  have codes:
    "ErrCodeEquals (Some not_found) ErrCodeNotFoundException"
    "ErrCodeEquals (Some resource_not_found) ErrCodeResourceNotFoundException"
    "Code access_denied \<noteq> ErrCodeNotFoundException"
    "Code access_denied \<noteq> ErrCodeResourceNotFoundException"
    "ErrorString access_denied = ''AccessDeniedException: denied''"
    by (simp_all add: ErrCodeEquals_def not_found_def resource_not_found_def access_denied_def
        ErrCodeNotFoundException_def ErrCodeResourceNotFoundException_def ErrorString_def)
  note ok = delete_not_found_is_success
         [of node_existing "node_conn 0 ''ACTIVE''" "[]" deps0 access_existing
             "''s-1''" "''S-1-1''" echo_conn "[]"]
  note denied = delete_not_found_is_success
         [of node_existing node_conn_denied "[]" deps0 access_existing
             "''s-1''" "''S-1-1''" echo_conn_denied "[]"]
  have v1: "resourceVirtualNodeDelete (node_conn 0 ''ACTIVE'') node_existing [] =
     ([], node_existing, [DeleteVirtualNode node_ref0])"
    using ok req answers by (simp add: Let_def)
  have v2: "fst (resourceVirtualNodeDelete (node_conn 0 ''ACTIVE'') node_existing
            [DeleteVirtualNode node_ref0]) = []"
    using ok req answers codes v1 by (simp add: Let_def)
  have v3: "fst (resourceVirtualNodeDelete node_conn_denied node_existing []) =
       [DiagError ''deleting App Mesh virtual node (uid-1): AccessDeniedException: denied'']"
    using denied req answers codes ids by (simp add: Let_def)
  have a1: "resourceAccessDelete deps0 echo_conn access_existing [] =
       ([], access_existing, [DeleteAccess ''S-1-1'' ''s-1''])"
    using ok parse answers by (simp add: Let_def)
  have a2: "fst (resourceAccessDelete deps0 echo_conn access_existing
              [DeleteAccess ''S-1-1'' ''s-1'']) = []"
    using ok parse answers codes a1 by (simp add: Let_def)
  have a3: "fst (resourceAccessDelete deps0 echo_conn_denied access_existing []) =
       [DiagError ''deleting Transfer Access (s-1/S-1-1): AccessDeniedException: denied'']"
    using denied parse answers codes ids by (simp add: Let_def)
  from v1 v2 v3 a1 a2 a3 show ?thesis by blast
qed

subsection \<open>Read on a newly created virtual node\<close>

lemma describe_with_retry_transient:
  assumes "\<forall>i<k. \<exists>e. DescribeVirtualNodeWithContext conn (h @ replicate i (DescribeVirtualNode req)) req = Inl e
                     \<and> Code e = ErrCodeNotFoundException"
    and "DescribeVirtualNodeWithContext conn (h @ replicate k (DescribeVirtualNode req)) req = Inr out"
    and "k < propagationAttempts meta \<or> k = 0"
  shows "describe_with_retry meta conn True req h =
         (out, None, h @ replicate (Suc k) (DescribeVirtualNode req))"
proof (cases "k < propagationAttempts meta")
  case True
  from retry_transient_then_answer[OF assms(1,2) True]
  show ?thesis
    by (simp add: describe_with_retry_def TimedOut_def retry_error_def)
next
  case False
  with assms(3) have k: "k = 0" and n: "propagationAttempts meta = 0" by auto
  from assms(2) show ?thesis unfolding k
    by (simp add: describe_with_retry_def n TimedOut_def)
qed

text \<open>
  C3. Read on a newly created virtual node: when the describe call, possibly after \<open>k\<close>
  not-found answers that the propagation window lets it retry, answers with a node whose
  status is DELETED, Read returns an error diagnostic, makes no further call and leaves the
  resource data, the identity included, as it was. So does Create when its create call
  succeeded and the Read it ends with sees the DELETED node.
\<close>

theorem read_deleted_after_create_is_fatal:
  "(IsNewResource d
      \<and> (\<forall>i<k. \<exists>e. DescribeVirtualNodeWithContext conn
                       (h @ replicate i (DescribeVirtualNode (describe_request (attrs d))))
                       (describe_request (attrs d)) = Inl e
                   \<and> Code e = ErrCodeNotFoundException)
      \<and> DescribeVirtualNodeWithContext conn
            (h @ replicate k (DescribeVirtualNode (describe_request (attrs d))))
            (describe_request (attrs d)) = Inr (Some r)
      \<and> VirtualNode r = Some vn
      \<and> StringValue (vn_Status vn) = VirtualNodeStatusCodeDeleted
      \<and> (k < propagationAttempts meta \<or> k = 0)
    \<longrightarrow> resourceVirtualNodeRead meta conn d h =
          ([DiagError ''reading App Mesh Virtual Node: DELETED after creation''], d,
           h @ replicate (Suc k) (DescribeVirtualNode (describe_request (attrs d)))))
   \<and> (IsNewResource d
      \<and> creq = \<lparr>MeshName = Some (mesh_name (attrs d)), MeshOwner = GetOk (mesh_owner (attrs d)),
                 VirtualNodeName = Some (name (attrs d)),
                 Spec = expandVirtualNodeSpec meta (spec (attrs d)),
                 Tags = MergeTags meta (tags (attrs d))\<rparr>
      \<and> CreateVirtualNodeWithContext conn h creq = Inr created
      \<and> DescribeVirtualNodeWithContext conn (h @ [CreateVirtualNode creq])
            (describe_request (attrs d)) = Inr (Some r)
      \<and> VirtualNode r = Some vn
      \<and> StringValue (vn_Status vn) = VirtualNodeStatusCodeDeleted
    \<longrightarrow> resourceVirtualNodeCreate meta conn d h =
          ([DiagError ''reading App Mesh Virtual Node: DELETED after creation''],
           d\<lparr>Id := StringValue (vn_Uid created)\<rparr>,
           h @ [CreateVirtualNode creq, DescribeVirtualNode (describe_request (attrs d))]))"
proof (intro conjI impI)
  assume a: "IsNewResource d
      \<and> (\<forall>i<k. \<exists>e. DescribeVirtualNodeWithContext conn
                       (h @ replicate i (DescribeVirtualNode (describe_request (attrs d))))
                       (describe_request (attrs d)) = Inl e
                   \<and> Code e = ErrCodeNotFoundException)
      \<and> DescribeVirtualNodeWithContext conn
            (h @ replicate k (DescribeVirtualNode (describe_request (attrs d))))
            (describe_request (attrs d)) = Inr (Some r)
      \<and> VirtualNode r = Some vn
      \<and> StringValue (vn_Status vn) = VirtualNodeStatusCodeDeleted
      \<and> (k < propagationAttempts meta \<or> k = 0)"
  then have "describe_with_retry meta conn True (describe_request (attrs d)) h =
         (Some r, None, h @ replicate (Suc k) (DescribeVirtualNode (describe_request (attrs d))))"
    by (intro describe_with_retry_transient) auto
  with a show "resourceVirtualNodeRead meta conn d h =
          ([DiagError ''reading App Mesh Virtual Node: DELETED after creation''], d,
           h @ replicate (Suc k) (DescribeVirtualNode (describe_request (attrs d))))"
    by (simp add: resourceVirtualNodeRead_def ErrCodeEquals_def AppendErrorf_def
        VirtualNodeStatusCodeDeleted_def)
next
  assume a: "IsNewResource d
      \<and> creq = \<lparr>MeshName = Some (mesh_name (attrs d)), MeshOwner = GetOk (mesh_owner (attrs d)),
                 VirtualNodeName = Some (name (attrs d)),
                 Spec = expandVirtualNodeSpec meta (spec (attrs d)),
                 Tags = MergeTags meta (tags (attrs d))\<rparr>
      \<and> CreateVirtualNodeWithContext conn h creq = Inr created
      \<and> DescribeVirtualNodeWithContext conn (h @ [CreateVirtualNode creq])
            (describe_request (attrs d)) = Inr (Some r)
      \<and> VirtualNode r = Some vn
      \<and> StringValue (vn_Status vn) = VirtualNodeStatusCodeDeleted"
  let ?d = "d\<lparr>Id := StringValue (vn_Uid created)\<rparr>"
  let ?h = "h @ [CreateVirtualNode creq]"
  from a have "describe_with_retry meta conn True (describe_request (attrs ?d)) ?h =
         (Some r, None, ?h @ replicate (Suc 0) (DescribeVirtualNode (describe_request (attrs ?d))))"
    by (intro describe_with_retry_transient) auto
  with a have "resourceVirtualNodeRead meta conn ?d ?h =
          ([DiagError ''reading App Mesh Virtual Node: DELETED after creation''], ?d,
           ?h @ [DescribeVirtualNode (describe_request (attrs d))])"
    by (simp add: resourceVirtualNodeRead_def ErrCodeEquals_def AppendErrorf_def
        VirtualNodeStatusCodeDeleted_def)
  with a show "resourceVirtualNodeCreate meta conn d h =
          ([DiagError ''reading App Mesh Virtual Node: DELETED after creation''], ?d,
           h @ [CreateVirtualNode creq, DescribeVirtualNode (describe_request (attrs d))])"
    by (auto simp add: resourceVirtualNodeCreate_def Let_def)
qed


theorem read_deleted_after_create_is_fatal_witness:
  "resourceVirtualNodeRead meta0 (node_conn 2 ''DELETED'') node_new [] =
     ([DiagError ''reading App Mesh Virtual Node: DELETED after creation''], node_new,
      [DescribeVirtualNode node_ref0, DescribeVirtualNode node_ref0, DescribeVirtualNode node_ref0])
   \<and> resourceVirtualNodeCreate meta0 (node_conn 0 ''DELETED'') node_new [] =
     ([DiagError ''reading App Mesh Virtual Node: DELETED after creation''],
      node_new\<lparr>Id := ''uid-1''\<rparr>,
      [CreateVirtualNode \<lparr>MeshName = Some ''s1'', MeshOwner = None, VirtualNodeName = Some ''n1'',
                           Spec = Some ''listener-8080'', Tags = []\<rparr>,
       DescribeVirtualNode node_ref0])"
proof -
  let ?creq = "\<lparr>MeshName = Some ''s1'', MeshOwner = None, VirtualNodeName = Some ''n1'',
                 Spec = Some ''listener-8080'', Tags = []\<rparr> :: string NodeWrite"
  have req: "describe_request (attrs node_new) = node_ref0"
    by (simp add: describe_request_def node_new_def node_attrs0_def node_ref0_def GetOk_def)
  have new: "IsNewResource node_new"
    by (simp add: node_new_def)
  have transient: "\<forall>i<2. \<exists>e. DescribeVirtualNodeWithContext (node_conn 2 ''DELETED'')
                     ([] @ replicate i (DescribeVirtualNode node_ref0)) node_ref0 = Inl e
                   \<and> Code e = ErrCodeNotFoundException"
    by (simp add: node_conn_def not_found_def ErrCodeNotFoundException_def)
  have answer: "DescribeVirtualNodeWithContext (node_conn 2 ''DELETED'')
                  ([] @ replicate 2 (DescribeVirtualNode node_ref0)) node_ref0 =
                Inr (Some \<lparr>VirtualNode = Some (node_data ''DELETED'')\<rparr>)"
    by (simp add: node_conn_def)
  have status: "StringValue (vn_Status (node_data ''DELETED'')) = VirtualNodeStatusCodeDeleted"
    by (simp add: node_data_def StringValue_def VirtualNodeStatusCodeDeleted_def)
  have window: "2 < propagationAttempts meta0"
    by (simp add: meta0_def)
  have creq: "?creq = \<lparr>MeshName = Some (mesh_name (attrs node_new)),
                 MeshOwner = GetOk (mesh_owner (attrs node_new)),
                 VirtualNodeName = Some (name (attrs node_new)),
                 Spec = expandVirtualNodeSpec meta0 (spec (attrs node_new)),
                 Tags = MergeTags meta0 (tags (attrs node_new))\<rparr>"
    by (simp add: node_new_def node_attrs0_def meta0_def GetOk_def)
  have created: "CreateVirtualNodeWithContext (node_conn 0 ''DELETED'') [] ?creq
                   = Inr (node_data ''ACTIVE'')"
    "StringValue (vn_Uid (node_data ''ACTIVE'')) = ''uid-1''"
    by (simp_all add: node_conn_def node_data_def StringValue_def)
  have answer0: "DescribeVirtualNodeWithContext (node_conn 0 ''DELETED'')
                  ([] @ [CreateVirtualNode ?creq]) node_ref0 =
                Inr (Some \<lparr>VirtualNode = Some (node_data ''DELETED'')\<rparr>)"
    by (simp add: node_conn_def)
  note thm1 = read_deleted_after_create_is_fatal
      [of node_new 2 "node_conn 2 ''DELETED''" "[]" "\<lparr>VirtualNode = Some (node_data ''DELETED'')\<rparr>"
          "node_data ''DELETED''" meta0]
  note thm2 = read_deleted_after_create_is_fatal
      [of node_new 0 "node_conn 0 ''DELETED''" "[]" "\<lparr>VirtualNode = Some (node_data ''DELETED'')\<rparr>"
          "node_data ''DELETED''" meta0 ?creq "node_data ''ACTIVE''"]
  have r1: "resourceVirtualNodeRead meta0 (node_conn 2 ''DELETED'') node_new [] =
     ([DiagError ''reading App Mesh Virtual Node: DELETED after creation''], node_new,
      [DescribeVirtualNode node_ref0, DescribeVirtualNode node_ref0, DescribeVirtualNode node_ref0])"
    using thm1 req new transient answer status window
    by (simp add: numeral_3_eq_3)
  have r2: "resourceVirtualNodeCreate meta0 (node_conn 0 ''DELETED'') node_new [] =
     ([DiagError ''reading App Mesh Virtual Node: DELETED after creation''],
      node_new\<lparr>Id := ''uid-1''\<rparr>,
      [CreateVirtualNode ?creq, DescribeVirtualNode node_ref0])"
    using thm2 req new creq created answer0 status
    by simp
  from r1 r2 show ?thesis by blast
qed

subsection \<open>How often Read asks the remote\<close>

lemma retry_calls:
  assumes "RetryContext n (describe_attempt conn isNew req) lastErr (resp, h) = (out, resp', h')"
  shows "\<exists>j\<le>n. h' = h @ replicate j (DescribeVirtualNode req)
           \<and> (0 < n \<longrightarrow> 0 < j)
           \<and> (out = RetryTimeoutError \<longrightarrow> n = 0 \<and> lastErr = None)"
  using assms
proof (induction n arbitrary: lastErr resp h)
  case 0
  then show ?case by (auto split: option.splits)
next
  case (Suc n)
  let ?c = "DescribeVirtualNode req"
  show ?case
  proof (cases "describe_attempt conn isNew req (resp, h)")
    case (fields rerr resp1 h1)
    have h1: "h1 = h @ [?c]"
      using fields by (auto simp: describe_attempt_def split: sum.splits if_splits)
    show ?thesis
    proof (cases rerr)
      case None
      with Suc.prems fields h1 have "h' = h @ replicate 1 ?c" "out = RetryNil" by auto
      then show ?thesis by (intro exI[of _ 1]) auto
    next
      case (Some re)
      show ?thesis
      proof (cases re)
        case (NonRetryableError e)
        with Suc.prems fields h1 Some have "h' = h @ replicate 1 ?c" "out = RetryFailed e" by auto
        then show ?thesis by (intro exI[of _ 1]) auto
      next
        case (RetryableError e)
        with Suc.prems fields Some have
          "RetryContext n (describe_attempt conn isNew req) (Some e) (resp1, h1) = (out, resp', h')"
          by simp
        from Suc.IH[OF this] obtain j where
          j: "j \<le> n" "h' = h1 @ replicate j ?c" "out = RetryTimeoutError \<longrightarrow> n = 0 \<and> Some e = None"
          by blast
        then have "h' = h @ replicate (Suc j) ?c" "out \<noteq> RetryTimeoutError"
          using h1 by (auto simp: replicate_app_Cons_same)
        with j(1) show ?thesis by (intro exI[of _ "Suc j"]) auto
      qed
    qed
  qed
qed


lemma describe_with_retry_bounded:
  "\<exists>j. 1 \<le> j \<and> j \<le> max 1 (propagationAttempts meta)
       \<and> snd (snd (describe_with_retry meta conn isNew req h)) = h @ replicate j (DescribeVirtualNode req)"
proof (cases "propagationAttempts meta")
  case 0
  have "snd (snd (describe_with_retry meta conn isNew req h)) = h @ replicate 1 (DescribeVirtualNode req)"
    by (simp add: describe_with_retry_def 0 TimedOut_def split: sum.splits)
  then show ?thesis by (intro exI[of _ 1]) simp
next
  case (Suc n)
  obtain out resp' h' where
    run: "RetryContext (Suc n) (describe_attempt conn isNew req) None (None, h) = (out, resp', h')"
    by (cases "RetryContext (Suc n) (describe_attempt conn isNew req) None (None, h)") blast
  from retry_calls[OF run] obtain j where
    j: "j \<le> Suc n" "h' = h @ replicate j (DescribeVirtualNode req)" "0 < j"
       "out \<noteq> RetryTimeoutError"
    by blast
  have "describe_with_retry meta conn isNew req h = (resp', retry_error out, h')"
    unfolding describe_with_retry_def Suc run using j(4) by (simp add: TimedOut_def)
  with j(1,2,3) Suc show ?thesis by (intro exI[of _ j]) simp
qed


lemma retry_exhausted:
  assumes "\<forall>i<n. \<exists>e. DescribeVirtualNodeWithContext conn (h @ replicate i (DescribeVirtualNode req)) req = Inl e
                     \<and> Code e = ErrCodeNotFoundException"
    and "Code e0 = ErrCodeNotFoundException"
  shows "\<exists>e. RetryContext n (describe_attempt conn True req) (Some e0) (resp, h) =
               (RetryFailed e, (if n = 0 then resp else None), h @ replicate n (DescribeVirtualNode req))
             \<and> Code e = ErrCodeNotFoundException"
  using assms
proof (induction n arbitrary: h e0 resp)
  case 0
  then show ?case by simp
next
  case (Suc n)
  let ?c = "DescribeVirtualNode req"
  from Suc.prems(1) obtain e where
    e: "DescribeVirtualNodeWithContext conn h req = Inl e" "Code e = ErrCodeNotFoundException"
    by force
  have shift: "\<And>i. (h @ [?c]) @ replicate i ?c = h @ replicate (Suc i) ?c"
    by simp
  have tr: "\<forall>i<n. \<exists>e. DescribeVirtualNodeWithContext conn ((h @ [?c]) @ replicate i ?c) req = Inl e
                     \<and> Code e = ErrCodeNotFoundException"
    using Suc.prems(1) unfolding shift by auto
  from Suc.IH[OF tr e(2), of None] obtain e' where
    e': "RetryContext n (describe_attempt conn True req) (Some e) (None, h @ [?c]) =
           (RetryFailed e', None, (h @ [?c]) @ replicate n ?c)"
        "Code e' = ErrCodeNotFoundException"
    by auto
  have "RetryContext (Suc n) (describe_attempt conn True req) (Some e0) (resp, h) =
        RetryContext n (describe_attempt conn True req) (Some e) (None, h @ [?c])"
    using e by (simp add: describe_attempt_def ErrCodeEquals_def)
  with e' show ?case unfolding shift by auto
qed


lemma vn_read_new_never_found:
  assumes "IsNewResource d"
    and "0 < propagationAttempts meta"
    and "\<forall>i<propagationAttempts meta. \<exists>e.
           DescribeVirtualNodeWithContext conn
             (h @ replicate i (DescribeVirtualNode (describe_request (attrs d))))
             (describe_request (attrs d)) = Inl e
           \<and> Code e = ErrCodeNotFoundException"
  shows "\<exists>e. resourceVirtualNodeRead meta conn d h =
           ([DiagError (''reading App Mesh Virtual Node: '' @ ErrorString e)], d,
            h @ replicate (propagationAttempts meta) (DescribeVirtualNode (describe_request (attrs d))))"
proof -
  let ?req = "describe_request (attrs d)"
  let ?c = "DescribeVirtualNode ?req"
  from assms(2) obtain n where n: "propagationAttempts meta = Suc n" by (cases "propagationAttempts meta") auto
  from assms(3) n obtain e where
    e: "DescribeVirtualNodeWithContext conn h ?req = Inl e" "Code e = ErrCodeNotFoundException"
    by force
  have shift: "\<And>i. (h @ [?c]) @ replicate i ?c = h @ replicate (Suc i) ?c"
    by simp
  have tr: "\<forall>i<n. \<exists>e. DescribeVirtualNodeWithContext conn ((h @ [?c]) @ replicate i ?c) ?req = Inl e
                     \<and> Code e = ErrCodeNotFoundException"
    using assms(3) unfolding shift n by auto
  from retry_exhausted[OF tr e(2), of None] obtain e' where
    e': "RetryContext n (describe_attempt conn True ?req) (Some e) (None, h @ [?c]) =
           (RetryFailed e', None, (h @ [?c]) @ replicate n ?c)"
    by auto
  have "RetryContext (Suc n) (describe_attempt conn True ?req) None (None, h) =
        RetryContext n (describe_attempt conn True ?req) (Some e) (None, h @ [?c])"
    using e by (simp add: describe_attempt_def ErrCodeEquals_def)
  with e' have "describe_with_retry meta conn True ?req h = (None, Some e', h @ replicate (Suc n) ?c)"
    unfolding shift by (simp add: describe_with_retry_def n TimedOut_def retry_error_def)
  with assms(1) have "resourceVirtualNodeRead meta conn d h =
           ([DiagError (''reading App Mesh Virtual Node: '' @ ErrorString e')], d,
            h @ replicate (propagationAttempts meta) ?c)"
    by (simp add: resourceVirtualNodeRead_def n AppendErrorf_def)
  then show ?thesis ..
qed


lemma access_read_one_lookup:
  assumes "AccessParseResourceID deps (Id d) = Inr (serverID, externalID)"
  shows "snd (snd (resourceAccessRead deps conn d h)) = h @ [FindAccess serverID externalID]"
  using assms
  by (simp add: resourceAccessRead_def Let_def split: sum.splits prod.splits)


lemma access_read_new_not_found:
  assumes "IsNewResource d"
    and "AccessParseResourceID deps (Id d) = Inr (serverID, externalID)"
    and "FindAccessByServerIDAndExternalID conn h serverID externalID = Inl (NotFoundError m)"
  shows "resourceAccessRead deps conn d h =
           ([DiagError (''reading Transfer Access ('' @ Id d @ ''): '' @ m)], d,
            h @ [FindAccess serverID externalID])"
  using assms
  by (simp add: resourceAccessRead_def Let_def AppendErrorf_def FindErrorString_def)



lemma set_virtual_node_history:
  "\<exists>rest. snd (snd (set_virtual_node meta conn vn d h)) = h @ rest \<and> length rest \<le> 1
          \<and> \<not> list_ex is_mutating rest"
  by (auto simp add: set_virtual_node_def Let_def is_mutating_def split: option.splits sum.splits)

lemma vn_read_history:
  "\<exists>j rest. 1 \<le> j \<and> j \<le> max 1 (propagationAttempts meta) \<and> length rest \<le> 1
     \<and> \<not> list_ex is_mutating rest
     \<and> snd (snd (resourceVirtualNodeRead meta conn d h)) =
         h @ replicate j (DescribeVirtualNode (describe_request (attrs d))) @ rest"
proof -
  let ?req = "describe_request (attrs d)"
  obtain resp err h1 where
    run: "describe_with_retry meta conn (IsNewResource d) ?req h = (resp, err, h1)"
    by (cases "describe_with_retry meta conn (IsNewResource d) ?req h") blast
  from describe_with_retry_bounded[of meta conn "IsNewResource d" ?req h] run obtain j where
    j: "1 \<le> j" "j \<le> max 1 (propagationAttempts meta)" "h1 = h @ replicate j (DescribeVirtualNode ?req)"
    by auto
  have "snd (snd (resourceVirtualNodeRead meta conn d h)) = h1
        \<or> (\<exists>vn. snd (snd (resourceVirtualNodeRead meta conn d h)) =
                   snd (snd (set_virtual_node meta conn vn d h1)))"
    unfolding resourceVirtualNodeRead_def run
    by (auto split: option.splits)
  then show ?thesis
  proof
    assume "snd (snd (resourceVirtualNodeRead meta conn d h)) = h1"
    with j show ?thesis by (intro exI[of _ j] exI[of _ "[]"]) simp
  next
    assume "\<exists>vn. snd (snd (resourceVirtualNodeRead meta conn d h)) =
                   snd (snd (set_virtual_node meta conn vn d h1))"
    then obtain vn where
      vn: "snd (snd (resourceVirtualNodeRead meta conn d h)) = snd (snd (set_virtual_node meta conn vn d h1))"
      ..
    from set_virtual_node_history[of meta conn vn d h1] obtain rest where
      "snd (snd (set_virtual_node meta conn vn d h1)) = h1 @ rest" "length rest \<le> 1"
      "\<not> list_ex is_mutating rest"
      by blast
    with vn j show ?thesis by (intro exI[of _ j] exI[of _ rest]) simp
  qed
qed


text \<open>
  C4, as the code has it. The virtual node's Read asks the remote at least once and at most
  as often as the propagation window admits, whatever the answers, and a newly created node
  that stays not-found is polled through the window and then reported as an error. The
  access's Read looks the object up exactly once: a newly created access that is not found
  is an error at once, without a second lookup.
\<close>

theorem read_polls_within_the_window:
  "(\<exists>j rest. 1 \<le> j \<and> j \<le> max 1 (propagationAttempts meta) \<and> length rest \<le> 1
       \<and> \<not> list_ex is_mutating rest
       \<and> snd (snd (resourceVirtualNodeRead meta conn d h)) =
           h @ replicate j (DescribeVirtualNode (describe_request (attrs d))) @ rest)
   \<and> (IsNewResource d \<and> 0 < propagationAttempts meta
        \<and> (\<forall>i<propagationAttempts meta. \<exists>e.
              DescribeVirtualNodeWithContext conn
                (h @ replicate i (DescribeVirtualNode (describe_request (attrs d))))
                (describe_request (attrs d)) = Inl e
              \<and> Code e = ErrCodeNotFoundException)
      \<longrightarrow> (\<exists>e. resourceVirtualNodeRead meta conn d h =
             ([DiagError (''reading App Mesh Virtual Node: '' @ ErrorString e)], d,
              h @ replicate (propagationAttempts meta)
                    (DescribeVirtualNode (describe_request (attrs d))))))
   \<and> (AccessParseResourceID deps (Id a) = Inr (serverID, externalID)
      \<longrightarrow> snd (snd (resourceAccessRead deps aconn a ah)) = ah @ [FindAccess serverID externalID])
   \<and> (IsNewResource a \<and> AccessParseResourceID deps (Id a) = Inr (serverID, externalID)
        \<and> FindAccessByServerIDAndExternalID aconn ah serverID externalID = Inl (NotFoundError m)
      \<longrightarrow> resourceAccessRead deps aconn a ah =
            ([DiagError (''reading Transfer Access ('' @ Id a @ ''): '' @ m)], a,
             ah @ [FindAccess serverID externalID]))"
  using vn_read_history[of meta conn d h]
    vn_read_new_never_found[of d meta conn h]
    access_read_one_lookup[of deps a serverID externalID aconn ah]
    access_read_new_not_found[of a deps serverID externalID aconn ah m]
  by blast

theorem read_polls_within_the_window_witness:
  "(\<exists>e. resourceVirtualNodeRead meta0 (node_conn 5 ''ACTIVE'') node_new [] =
       ([DiagError (''reading App Mesh Virtual Node: '' @ ErrorString e)], node_new,
        [DescribeVirtualNode node_ref0, DescribeVirtualNode node_ref0, DescribeVirtualNode node_ref0]))
   \<and> resourceAccessRead deps0 echo_conn access_new [] =
       ([DiagError ''reading Transfer Access (s-1/S-1-1): couldn't find resource''], access_new,
        [FindAccess ''s-1'' ''S-1-1''])"
proof -
  have req: "describe_request (attrs node_new) = node_ref0"
    by (simp add: describe_request_def node_new_def node_attrs0_def node_ref0_def GetOk_def)
  have new: "IsNewResource node_new" "IsNewResource access_new"
    by (simp_all add: node_new_def access_new_def)
  have window: "propagationAttempts meta0 = 3"
    by (simp add: meta0_def)
  have never: "\<forall>i<3. \<exists>e. DescribeVirtualNodeWithContext (node_conn 5 ''ACTIVE'')
                     ([] @ replicate i (DescribeVirtualNode node_ref0)) node_ref0 = Inl e
                   \<and> Code e = ErrCodeNotFoundException"
    by (simp add: node_conn_def not_found_def ErrCodeNotFoundException_def)
  have parse: "AccessParseResourceID deps0 (Id access_new) = Inr (''s-1'', ''S-1-1'')"
    by (simp add: deps0_def spec_deps_def access_new_def parse_sample)
  have ident: "Id access_new = ''s-1/S-1-1''"
    by (simp add: access_new_def)
  have find: "FindAccessByServerIDAndExternalID echo_conn [] ''s-1'' ''S-1-1'' =
                Inl (NotFoundError ''couldn't find resource'')"
    by (simp add: echo_conn_def)
  note inst = read_polls_within_the_window
      [of meta0 "node_conn 5 ''ACTIVE''" node_new "[]" deps0 access_new "''s-1''" "''S-1-1''"
          echo_conn "[]" "''couldn't find resource''"]
  have v: "\<exists>e. resourceVirtualNodeRead meta0 (node_conn 5 ''ACTIVE'') node_new [] =
       ([DiagError (''reading App Mesh Virtual Node: '' @ ErrorString e)], node_new,
        [DescribeVirtualNode node_ref0, DescribeVirtualNode node_ref0, DescribeVirtualNode node_ref0])"
    using inst req new window never by (simp add: numeral_3_eq_3)
  have a: "resourceAccessRead deps0 echo_conn access_new [] =
       ([DiagError ''reading Transfer Access (s-1/S-1-1): couldn't find resource''], access_new,
        [FindAccess ''s-1'' ''S-1-1''])"
    using inst new parse find ident by simp
  from v a show ?thesis by blast
qed

text \<open>
  The claim as stated fails for the access resource: Read on a newly created access whose
  first lookup is not-found returns the error after that one lookup, although the remote
  would have answered the next lookup with the object.
\<close>

theorem access_read_does_not_poll_counterexample:
  "IsNewResource access_new
   \<and> resourceAccessRead deps0 late_conn access_new [] =
       ([DiagError ''reading Transfer Access (s-1/S-1-1): couldn't find resource''], access_new,
        [FindAccess ''s-1'' ''S-1-1''])
   \<and> FindAccessByServerIDAndExternalID late_conn [FindAccess ''s-1'' ''S-1-1''] ''s-1'' ''S-1-1''
       = Inr described0"
proof -
  have parse: "AccessParseResourceID deps0 (Id access_new) = Inr (''s-1'', ''S-1-1'')"
    by (simp add: deps0_def spec_deps_def access_new_def parse_sample)
  have new: "IsNewResource access_new" and ident: "Id access_new = ''s-1/S-1-1''"
    by (simp_all add: access_new_def)
  have find: "FindAccessByServerIDAndExternalID late_conn [] ''s-1'' ''S-1-1'' =
                Inl (NotFoundError ''couldn't find resource'')"
    by (simp add: late_conn_def)
  have later: "FindAccessByServerIDAndExternalID late_conn [FindAccess ''s-1'' ''S-1-1'']
                 ''s-1'' ''S-1-1'' = Inr described0"
    by (simp add: late_conn_def)
  from access_read_new_not_found[OF new parse find] ident new later
  show ?thesis by simp
qed

subsection \<open>Import\<close>

lemma Split_not_Nil: "Split sep s \<noteq> []"
  by (induction s) (auto split: list.splits)

lemma length_Split: "length (Split sep s) = Suc (length (filter (\<lambda>c. c = sep) s))"
proof (induction s)
  case Nil
  show ?case by simp
next
  case (Cons c cs)
  then show ?case
    using Split_not_Nil[of sep cs] by (cases "Split sep cs") auto
qed

lemma vn_import_wrong_format:
  "length (Split CHR ''/'' (Id d)) \<noteq> 2 \<Longrightarrow>
   resourceVirtualNodeImport conn d h =
     (Inl (WrongFormat (''wrong format of import ID ('' @ Id d
             @ ''), use: 'mesh-name/virtual-node-name' '')), h)"
  by (simp add: resourceVirtualNodeImport_def)

lemma vn_import_two_parts:
  "length (Split CHR ''/'' (Id d)) = 2 \<Longrightarrow>
   snd (resourceVirtualNodeImport conn d h) =
     h @ [DescribeVirtualNode \<lparr>MeshName = Some (Split CHR ''/'' (Id d) ! 0), MeshOwner = None,
                               VirtualNodeName = Some (Split CHR ''/'' (Id d) ! 1)\<rparr>]"
  by (simp add: resourceVirtualNodeImport_def Let_def split: sum.splits option.splits)

lemma access_import_wrong_format:
  "length (Split CHR ''/'' (Id a)) \<noteq> 2 \<Longrightarrow>
   access_import_then_read (spec_deps nj pts) aconn a ah =
     ([DiagError (''parsing Transfer Access ID: unexpected format for ID ('' @ Id a @ '')'')], a, ah)"
  by (simp add: access_import_then_read_def ImportStatePassthroughContext_def
      resourceAccessRead_def spec_deps_def spec_AccessParseResourceID_def AppendErrorf_def)

lemma access_import_two_parts:
  "length (Split CHR ''/'' (Id a)) = 2 \<Longrightarrow>
   snd (snd (access_import_then_read (spec_deps nj pts) aconn a ah)) =
     ah @ [FindAccess (Split CHR ''/'' (Id a) ! 0) (Split CHR ''/'' (Id a) ! 1)]"
  by (simp add: access_import_then_read_def ImportStatePassthroughContext_def
      resourceAccessRead_def spec_deps_def spec_AccessParseResourceID_def Let_def
      split: sum.splits prod.splits)

text \<open>
  C6. Import splits the reference at every "/" (the number of components is the number of
  separators plus one). The virtual node's import rejects a reference that does not have
  exactly two components before any remote call, and otherwise describes the node named by
  the two components. "meshA/nodeB" gives ("meshA", "nodeB"); "meshA" has one component and
  "meshA/nodeB/extra" three, so both are rejected and nothing is cut off. The access's
  importer passes the reference through to Read, which parses it before its remote call in
  the same way.
\<close>

theorem import_needs_two_components:
  "length (Split CHR ''/'' s) = Suc (length (filter (\<lambda>c. c = CHR ''/'') s))
   \<and> Split CHR ''/'' ''meshA/nodeB'' = [''meshA'', ''nodeB'']
   \<and> Split CHR ''/'' ''meshA'' = [''meshA'']
   \<and> Split CHR ''/'' ''meshA/nodeB/extra'' = [''meshA'', ''nodeB'', ''extra'']
   \<and> (length (Split CHR ''/'' (Id d)) \<noteq> 2 \<longrightarrow>
        resourceVirtualNodeImport conn d h =
          (Inl (WrongFormat (''wrong format of import ID ('' @ Id d
                  @ ''), use: 'mesh-name/virtual-node-name' '')), h))
   \<and> (length (Split CHR ''/'' (Id d)) = 2 \<longrightarrow>
        snd (resourceVirtualNodeImport conn d h) =
          h @ [DescribeVirtualNode \<lparr>MeshName = Some (Split CHR ''/'' (Id d) ! 0), MeshOwner = None,
                                    VirtualNodeName = Some (Split CHR ''/'' (Id d) ! 1)\<rparr>])
   \<and> (length (Split CHR ''/'' (Id a)) \<noteq> 2 \<longrightarrow>
        access_import_then_read (spec_deps nj pts) aconn a ah =
          ([DiagError (''parsing Transfer Access ID: unexpected format for ID ('' @ Id a @ '')'')],
           a, ah))
   \<and> (length (Split CHR ''/'' (Id a)) = 2 \<longrightarrow>
        snd (snd (access_import_then_read (spec_deps nj pts) aconn a ah)) =
          ah @ [FindAccess (Split CHR ''/'' (Id a) ! 0) (Split CHR ''/'' (Id a) ! 1)])"
proof -
  have "Split CHR ''/'' ''meshA/nodeB'' = [''meshA'', ''nodeB'']"
    and "Split CHR ''/'' ''meshA'' = [''meshA'']"
    and "Split CHR ''/'' ''meshA/nodeB/extra'' = [''meshA'', ''nodeB'', ''extra'']"
    by simp_all
  then show ?thesis
    using length_Split[of "CHR ''/''" s]
      vn_import_wrong_format[of d conn h] vn_import_two_parts[of d conn h]
      access_import_wrong_format[of a nj pts aconn ah]
      access_import_two_parts[of a nj pts aconn ah]
    by blast
qed

theorem import_needs_two_components_witness:
  "resourceVirtualNodeImport (node_conn 0 ''ACTIVE'') (node_existing\<lparr>Id := ''meshA''\<rparr>) [] =
     (Inl (WrongFormat ''wrong format of import ID (meshA), use: 'mesh-name/virtual-node-name' ''), [])
   \<and> resourceVirtualNodeImport (node_conn 0 ''ACTIVE'')
        (node_existing\<lparr>Id := ''meshA/nodeB/extra''\<rparr>) [] =
     (Inl (WrongFormat
        ''wrong format of import ID (meshA/nodeB/extra), use: 'mesh-name/virtual-node-name' ''), [])
   \<and> snd (resourceVirtualNodeImport (node_conn 0 ''ACTIVE'')
             (node_existing\<lparr>Id := ''meshA/nodeB''\<rparr>) []) =
     [DescribeVirtualNode \<lparr>MeshName = Some ''meshA'', MeshOwner = None,
                           VirtualNodeName = Some ''nodeB''\<rparr>]
   \<and> access_import_then_read deps0 echo_conn (access_existing\<lparr>Id := ''meshA''\<rparr>) [] =
     ([DiagError ''parsing Transfer Access ID: unexpected format for ID (meshA)''],
      access_existing\<lparr>Id := ''meshA''\<rparr>, [])
   \<and> snd (snd (access_import_then_read deps0 echo_conn (access_existing\<lparr>Id := ''s-1/S-1-1''\<rparr>) []))
       = [FindAccess ''s-1'' ''S-1-1'']"
proof -
  note one = import_needs_two_components
      [of "''meshA''" "node_existing\<lparr>Id := ''meshA''\<rparr>" "node_conn 0 ''ACTIVE''" "[]"
          "access_existing\<lparr>Id := ''meshA''\<rparr>" Inr "\<lambda>exist new. Inr new" echo_conn "[]"]
  note three = import_needs_two_components
      [of "''meshA''" "node_existing\<lparr>Id := ''meshA/nodeB/extra''\<rparr>" "node_conn 0 ''ACTIVE''" "[]"
          "access_existing\<lparr>Id := ''meshA''\<rparr>" Inr "\<lambda>exist new. Inr new" echo_conn "[]"]
  note two = import_needs_two_components
      [of "''meshA''" "node_existing\<lparr>Id := ''meshA/nodeB''\<rparr>" "node_conn 0 ''ACTIVE''" "[]"
          "access_existing\<lparr>Id := ''s-1/S-1-1''\<rparr>" Inr "\<lambda>exist new. Inr new" echo_conn "[]"]
  have v1: "resourceVirtualNodeImport (node_conn 0 ''ACTIVE'') (node_existing\<lparr>Id := ''meshA''\<rparr>) [] =
     (Inl (WrongFormat ''wrong format of import ID (meshA), use: 'mesh-name/virtual-node-name' ''), [])"
    using one by simp
  have v3: "resourceVirtualNodeImport (node_conn 0 ''ACTIVE'')
        (node_existing\<lparr>Id := ''meshA/nodeB/extra''\<rparr>) [] =
     (Inl (WrongFormat
        ''wrong format of import ID (meshA/nodeB/extra), use: 'mesh-name/virtual-node-name' ''), [])"
    using three by simp
  have v2: "snd (resourceVirtualNodeImport (node_conn 0 ''ACTIVE'')
             (node_existing\<lparr>Id := ''meshA/nodeB''\<rparr>) []) =
     [DescribeVirtualNode \<lparr>MeshName = Some ''meshA'', MeshOwner = None,
                           VirtualNodeName = Some ''nodeB''\<rparr>]"
    using two by simp
  have a1: "access_import_then_read deps0 echo_conn (access_existing\<lparr>Id := ''meshA''\<rparr>) [] =
     ([DiagError ''parsing Transfer Access ID: unexpected format for ID (meshA)''],
      access_existing\<lparr>Id := ''meshA''\<rparr>, [])"
    using one by (simp add: deps0_def)
  have a2: "snd (snd (access_import_then_read deps0 echo_conn (access_existing\<lparr>Id := ''s-1/S-1-1''\<rparr>) []))
       = [FindAccess ''s-1'' ''S-1-1'']"
    using two by (simp add: deps0_def)
  from v1 v2 v3 a1 a2 show ?thesis by blast
qed

subsection \<open>What Read writes\<close>

lemma set_access_role: "role (attrs (snd (set_access deps serverID access d))) = role (attrs d)"
  by (simp add: set_access_def Let_def split: option.splits sum.splits)

lemma access_read_role:
  "role (attrs (fst (snd (resourceAccessRead deps conn d h)))) = role (attrs d)"
proof (cases "AccessParseResourceID deps (Id d)")
  case (Inl e)
  then show ?thesis by (simp add: resourceAccessRead_def)
next
  case (Inr p)
  obtain serverID externalID where p: "p = (serverID, externalID)" by (cases p)
  show ?thesis
  proof (cases "FindAccessByServerIDAndExternalID conn h serverID externalID")
    case (Inl err)
    with Inr p show ?thesis by (simp add: resourceAccessRead_def Let_def)
  next
    case (Inr access)
    with \<open>AccessParseResourceID deps (Id d) = Inr p\<close> p
    have "fst (snd (resourceAccessRead deps conn d h)) = snd (set_access deps serverID access d)"
      by (simp add: resourceAccessRead_def Let_def split: prod.splits)
    then show ?thesis by (simp add: set_access_role)
  qed
qed

lemma set_access_refreshes:
  assumes "set_access deps serverID access d = ([], d')"
  shows "external_id (attrs d') = StringValue (da_ExternalId access)
     \<and> home_directory (attrs d') = StringValue (da_HomeDirectory access)
     \<and> home_directory_mappings (attrs d') =
         flattenHomeDirectoryMappings deps (da_HomeDirectoryMappings access)
     \<and> home_directory_type (attrs d') = StringValue (da_HomeDirectoryType access)
     \<and> posix_profile (attrs d') = flattenUserPOSIXUser deps (da_PosixProfile access)
     \<and> PolicyToSet deps (policy (attrs d)) (StringValue (da_Policy access)) = Inr (policy (attrs d'))
     \<and> server_id (attrs d') = serverID
     \<and> role (attrs d') = role (attrs d)
     \<and> Id d' = Id d"
  using assms
  by (auto simp add: set_access_def Let_def AppendErrorf_def split: option.splits sum.splits)

lemma access_read_found:
  assumes "AccessParseResourceID deps (Id d) = Inr (serverID, externalID)"
    and "FindAccessByServerIDAndExternalID conn h serverID externalID = Inr access"
  shows "resourceAccessRead deps conn d h =
         (fst (set_access deps serverID access d), snd (set_access deps serverID access d),
          h @ [FindAccess serverID externalID])"
  using assms by (simp add: resourceAccessRead_def Let_def split: prod.splits)

text \<open>
  C9. The role of the Transfer access is not returned on read, and Read never writes it: after
  any Read, also one that fails or that drops the resource, the tracked role is what it was.
  A Read that finds the object and succeeds sets every other attribute from the answer: the
  policy to what \<^verbatim>\<open>verify.PolicyToSet\<close> makes of the tracked and the returned policy, and
  the server id to the one parsed from the ID.
\<close>

theorem read_never_writes_role:
  "role (attrs (fst (snd (resourceAccessRead deps conn d h)))) = role (attrs d)
   \<and> (AccessParseResourceID deps (Id d) = Inr (serverID, externalID)
        \<and> FindAccessByServerIDAndExternalID conn h serverID externalID = Inr access
        \<and> resourceAccessRead deps conn d h = ([], d', h')
      \<longrightarrow> external_id (attrs d') = StringValue (da_ExternalId access)
        \<and> home_directory (attrs d') = StringValue (da_HomeDirectory access)
        \<and> home_directory_mappings (attrs d') =
            flattenHomeDirectoryMappings deps (da_HomeDirectoryMappings access)
        \<and> home_directory_type (attrs d') = StringValue (da_HomeDirectoryType access)
        \<and> posix_profile (attrs d') = flattenUserPOSIXUser deps (da_PosixProfile access)
        \<and> PolicyToSet deps (policy (attrs d)) (StringValue (da_Policy access))
            = Inr (policy (attrs d'))
        \<and> server_id (attrs d') = serverID
        \<and> role (attrs d') = role (attrs d))"
proof (rule conjI)
  show "role (attrs (fst (snd (resourceAccessRead deps conn d h)))) = role (attrs d)"
    by (rule access_read_role)
next
  show "(AccessParseResourceID deps (Id d) = Inr (serverID, externalID)
        \<and> FindAccessByServerIDAndExternalID conn h serverID externalID = Inr access
        \<and> resourceAccessRead deps conn d h = ([], d', h')
      \<longrightarrow> external_id (attrs d') = StringValue (da_ExternalId access)
        \<and> home_directory (attrs d') = StringValue (da_HomeDirectory access)
        \<and> home_directory_mappings (attrs d') =
            flattenHomeDirectoryMappings deps (da_HomeDirectoryMappings access)
        \<and> home_directory_type (attrs d') = StringValue (da_HomeDirectoryType access)
        \<and> posix_profile (attrs d') = flattenUserPOSIXUser deps (da_PosixProfile access)
        \<and> PolicyToSet deps (policy (attrs d)) (StringValue (da_Policy access))
            = Inr (policy (attrs d'))
        \<and> server_id (attrs d') = serverID
        \<and> role (attrs d') = role (attrs d))"
  proof (rule impI)
    assume a: "AccessParseResourceID deps (Id d) = Inr (serverID, externalID)
        \<and> FindAccessByServerIDAndExternalID conn h serverID externalID = Inr access
        \<and> resourceAccessRead deps conn d h = ([], d', h')"
    then have "resourceAccessRead deps conn d h =
         (fst (set_access deps serverID access d), snd (set_access deps serverID access d),
          h @ [FindAccess serverID externalID])"
      by (intro access_read_found) auto
    with a have "set_access deps serverID access d = ([], d')"
      by (simp add: prod_eq_iff)
    from set_access_refreshes[OF this]
    show "external_id (attrs d') = StringValue (da_ExternalId access)
        \<and> home_directory (attrs d') = StringValue (da_HomeDirectory access)
        \<and> home_directory_mappings (attrs d') =
            flattenHomeDirectoryMappings deps (da_HomeDirectoryMappings access)
        \<and> home_directory_type (attrs d') = StringValue (da_HomeDirectoryType access)
        \<and> posix_profile (attrs d') = flattenUserPOSIXUser deps (da_PosixProfile access)
        \<and> PolicyToSet deps (policy (attrs d)) (StringValue (da_Policy access))
            = Inr (policy (attrs d'))
        \<and> server_id (attrs d') = serverID
        \<and> role (attrs d') = role (attrs d)"
      by blast
  qed
qed


theorem read_never_writes_role_witness:
  "resourceAccessRead deps0 role_conn access_existing [] =
     ([], access_existing\<lparr>attrs := access_attrs0\<lparr>home_directory := ''/data''\<rparr>\<rparr>,
      [FindAccess ''s-1'' ''S-1-1''])
   \<and> role (attrs (fst (snd (resourceAccessRead deps0 role_conn access_existing []))))
       = ''arn:aws:iam::1:role/r''
   \<and> home_directory (attrs (access_existing\<lparr>attrs := access_attrs0\<lparr>home_directory := ''/data''\<rparr>\<rparr>))
       = StringValue (da_HomeDirectory described1)"
proof -
  let ?d' = "access_existing\<lparr>attrs := access_attrs0\<lparr>home_directory := ''/data''\<rparr>\<rparr>"
  have parse: "AccessParseResourceID deps0 (Id access_existing) = Inr (''s-1'', ''S-1-1'')"
    by (simp add: deps0_def spec_deps_def access_existing_def parse_sample)
  have find: "FindAccessByServerIDAndExternalID role_conn [] ''s-1'' ''S-1-1'' = Inr described1"
    by (simp add: role_conn_def)
  have set: "set_access deps0 ''s-1'' described1 access_existing = ([], ?d')"
    by (simp add: set_access_def deps0_def spec_deps_def described1_def described0_def
        access_existing_def access_attrs0_def StringValue_def
        spec_flattenHomeDirectoryMappings_def spec_flattenUserPOSIXUser_def)
  have run: "resourceAccessRead deps0 role_conn access_existing [] =
               ([], ?d', [FindAccess ''s-1'' ''S-1-1''])"
    using access_read_found[OF parse find] set by simp
  have old_role: "role (attrs access_existing) = ''arn:aws:iam::1:role/r''"
    by (simp add: access_existing_def access_attrs0_def)
  from read_never_writes_role
         [of deps0 role_conn access_existing "[]" "''s-1''" "''S-1-1''" described1 ?d'
             "[FindAccess ''s-1'' ''S-1-1'']"]
       parse find run old_role
  show ?thesis by simp
qed

subsection \<open>Update\<close>














lemma update_input_none:
  "access_changes d = [False, False, False, False, False, False] \<Longrightarrow>
   update_access_input deps serverID externalID d = Inr (access_key_input serverID externalID)"
  by (simp add: access_changes_def update_access_input_def access_key_input_def Let_def)


text \<open>
  Where the block was removed, so that the expander gives no wire profile, the request names
  the object and carries no group.
\<close>

lemma update_input_posix_removed:
  "access_changes d = [False, False, False, False, True, False] \<Longrightarrow>
   expandUserPOSIXUser deps (posix_profile (attrs d)) = None \<Longrightarrow>
   update_access_input deps serverID externalID d = Inr (access_key_input serverID externalID)"
  by (simp add: access_changes_def update_access_input_def access_key_input_def Let_def)





text \<open>
  C7 at the input where the code departs from it. The ID of an access is built from
  \<^verbatim>\<open>server_id\<close> and \<^verbatim>\<open>external_id\<close>; \<^verbatim>\<open>server_id\<close> is \<^verbatim>\<open>ForceNew\<close>, as are both parts of the
  virtual node's natural key, but \<^verbatim>\<open>external_id\<close> is not. So the host calls Update when only
  \<^verbatim>\<open>external_id\<close> changed (here from S-1-1 to S-1-2): Update addresses the object by the old
  external id parsed from the ID, sends no new value, and the Read that ends it puts the old
  external id back.
\<close>

theorem external_id_change_reaches_update:
  "access_identity_attributes = [''server_id'', ''external_id'']
   \<and> is_ForceNew ResourceAccess_Schema ''server_id''
   \<and> \<not> is_ForceNew ResourceAccess_Schema ''external_id''
   \<and> list_all (is_ForceNew ResourceVirtualNode_Schema) virtual_node_identity_attributes
   \<and> \<not> RequiresNew ResourceAccess_Schema [''external_id'']
   \<and> external_id (attrs access_renamed) = ''S-1-2''
   \<and> resourceAccessUpdate deps0 late_conn access_renamed [] =
       ([], access_renamed\<lparr>attrs := access_attrs0\<rparr>,
        [UpdateAccess (access_key_input ''s-1'' ''S-1-1''), FindAccess ''s-1'' ''S-1-1''])"
proof -
  have schema: "is_ForceNew ResourceAccess_Schema ''server_id''"
    "\<not> is_ForceNew ResourceAccess_Schema ''external_id''"
    "list_all (is_ForceNew ResourceVirtualNode_Schema) virtual_node_identity_attributes"
    "\<not> RequiresNew ResourceAccess_Schema [''external_id'']"
    by (simp_all add: is_ForceNew_def ResourceAccess_Schema_def ResourceVirtualNode_Schema_def
        virtual_node_identity_attributes_def RequiresNew_def)
  have parse: "AccessParseResourceID deps0 (Id access_renamed) = Inr (''s-1'', ''S-1-1'')"
    by (simp add: deps0_def spec_deps_def access_renamed_def parse_sample)
  have input: "update_access_input deps0 ''s-1'' ''S-1-1'' access_renamed =
                 Inr (access_key_input ''s-1'' ''S-1-1'')"
    by (intro update_input_none)
      (simp add: access_changes_def HasChange_def access_renamed_def access_attrs0_def)
  have upd: "UpdateAccessWithContext late_conn [] (access_key_input ''s-1'' ''S-1-1'') = None"
    by (simp add: late_conn_def echo_conn_def)
  have find: "FindAccessByServerIDAndExternalID late_conn
                ([] @ [UpdateAccess (access_key_input ''s-1'' ''S-1-1'')]) ''s-1'' ''S-1-1''
              = Inr described0"
    by (simp add: late_conn_def)
  have set: "set_access deps0 ''s-1'' described0 access_renamed =
               ([], access_renamed\<lparr>attrs := access_attrs0\<rparr>)"
    by (simp add: set_access_def deps0_def spec_deps_def described0_def
        access_renamed_def access_attrs0_def StringValue_def
        spec_flattenHomeDirectoryMappings_def spec_flattenUserPOSIXUser_def)
  have "resourceAccessUpdate deps0 late_conn access_renamed [] =
       ([], access_renamed\<lparr>attrs := access_attrs0\<rparr>,
        [UpdateAccess (access_key_input ''s-1'' ''S-1-1''), FindAccess ''s-1'' ''S-1-1''])"
    using access_read_found[OF parse find] set
    by (simp add: resourceAccessUpdate_def parse input upd)
  with schema show ?thesis
    by (simp add: access_identity_attributes_def access_renamed_def)
qed

subsection \<open>The round trip of the access resource\<close>

lemma StringValue_GetOk: "StringValue (GetOk s) = s"
  by (simp add: StringValue_def GetOk_def)

lemma StringValue_Some: "StringValue (Some s) = s"
  by (simp add: StringValue_def)

lemma flatten_expand_mappings:
  "spec_flattenHomeDirectoryMappings (spec_expandHomeDirectoryMappings ms) = ms"
  by (induction ms)
    (simp_all add: spec_flattenHomeDirectoryMappings_def spec_expandHomeDirectoryMappings_def
      StringValue_def)

lemma flatten_expand_posix:
  "length bs \<le> 1 \<Longrightarrow>
   spec_flattenUserPOSIXUser (if bs \<noteq> [] then spec_expandUserPOSIXUser bs else None) = bs"
  by (cases bs)
    (simp_all add: spec_flattenUserPOSIXUser_def spec_expandUserPOSIXUser_def Int64Value_def)

lemma wire_mappings_roundtrip:
  "spec_flattenHomeDirectoryMappings
     (case (if ms \<noteq> [] then Some (spec_expandHomeDirectoryMappings ms) else None) of
        None \<Rightarrow> [] | Some x \<Rightarrow> x) = ms"
  by (cases "ms = []")
    (simp_all add: flatten_expand_mappings, simp add: spec_flattenHomeDirectoryMappings_def)

lemma create_input_ok:
  assumes "policy cfg \<noteq> [] \<longrightarrow> nj (policy cfg) = Inr (policy cfg)"
  shows "create_access_input (spec_deps nj pts) cfg =
     Inr \<lparr>ExternalId = Some (external_id cfg), ServerId = Some (server_id cfg),
          HomeDirectory = GetOk (home_directory cfg),
          HomeDirectoryMappings =
            (if home_directory_mappings cfg \<noteq> []
             then Some (spec_expandHomeDirectoryMappings (home_directory_mappings cfg)) else None),
          HomeDirectoryType = GetOk (home_directory_type cfg),
          Policy = GetOk (policy cfg),
          PosixProfile =
            (if posix_profile cfg \<noteq> [] then spec_expandUserPOSIXUser (posix_profile cfg)
             else None),
          Role = GetOk (role cfg)\<rparr>"
  using assms
  by (simp add: create_access_input_def spec_deps_def Let_def GetOk_def)

lemma set_access_decodes:
  assumes len: "length (posix_profile cfg) \<le> 1"
    and pol: "pts (policy (attrs d0)) (policy cfg) = Inr (policy cfg)"
    and inp: "create_access_input (spec_deps nj pts) cfg = Inr input"
    and nrm: "policy cfg \<noteq> [] \<longrightarrow> nj (policy cfg) = Inr (policy cfg)"
  shows "set_access (spec_deps nj pts) (server_id cfg) (described_of input) d0 =
         ([], d0\<lparr>attrs := cfg\<lparr>role := role (attrs d0)\<rparr>\<rparr>)"
proof -
  from create_input_ok[of cfg nj pts] inp nrm
  have input: "input =
     \<lparr>ExternalId = Some (external_id cfg), ServerId = Some (server_id cfg),
          HomeDirectory = GetOk (home_directory cfg),
          HomeDirectoryMappings =
            (if home_directory_mappings cfg \<noteq> []
             then Some (spec_expandHomeDirectoryMappings (home_directory_mappings cfg)) else None),
          HomeDirectoryType = GetOk (home_directory_type cfg),
          Policy = GetOk (policy cfg),
          PosixProfile =
            (if posix_profile cfg \<noteq> [] then spec_expandUserPOSIXUser (posix_profile cfg)
             else None),
          Role = GetOk (role cfg)\<rparr>"
    by simp
  have written: "(attrs d0)\<lparr>external_id := external_id cfg, home_directory := home_directory cfg,
                   home_directory_mappings := home_directory_mappings cfg,
                   home_directory_type := home_directory_type cfg,
                   posix_profile := posix_profile cfg, policy := policy cfg,
                   server_id := server_id cfg\<rparr>
                 = cfg\<lparr>role := role (attrs d0)\<rparr>"
    by (cases cfg, cases "attrs d0") simp
  show ?thesis
    unfolding input
    using len pol written
    by (simp add: set_access_def spec_deps_def described_of_def Let_def StringValue_GetOk
        wire_mappings_roundtrip flatten_expand_posix StringValue_Some)
qed

lemma set_access_echo:
  assumes "length (posix_profile (attrs d)) \<le> 1"
    and "pts (policy (attrs d)) (policy (attrs d)) = Inr (policy (attrs d))"
    and "create_access_input (spec_deps nj pts) (attrs d) = Inr input"
    and "policy (attrs d) \<noteq> [] \<longrightarrow> nj (policy (attrs d)) = Inr (policy (attrs d))"
  shows "set_access (spec_deps nj pts) (server_id (attrs d)) (described_of input) d = ([], d)"
  using set_access_decodes[OF assms] by simp


lemma Split_no_separator: "sep \<notin> set b \<Longrightarrow> Split sep b = [b]"
  by (induction b) auto

lemma Split_join: "sep \<notin> set a \<Longrightarrow> sep \<notin> set b \<Longrightarrow> Split sep (a @ sep # b) = [a, b]"
  by (induction a) (auto simp add: Split_no_separator)

lemma parse_created_id:
  assumes "CHR ''/'' \<notin> set serverID" and "CHR ''/'' \<notin> set externalID"
  shows "spec_AccessParseResourceID (spec_AccessCreateResourceID serverID externalID) =
         Inr (serverID, externalID)"
  using Split_join[OF assms]
  by (simp add: spec_AccessParseResourceID_def spec_AccessCreateResourceID_def)

lemma last_created_snoc: "last_created (h @ [CreateAccess input]) = Some input"
  by (induction h) auto

lemma access_create_echo:
  assumes len: "length (posix_profile (attrs d)) \<le> 1"
    and pol: "pts (policy (attrs d)) (policy (attrs d)) = Inr (policy (attrs d))"
    and inp: "create_access_input (spec_deps nj pts) (attrs d) = Inr input"
    and nrm: "policy (attrs d) \<noteq> [] \<longrightarrow> nj (policy (attrs d)) = Inr (policy (attrs d))"
    and s1: "CHR ''/'' \<notin> set (server_id (attrs d))"
    and s2: "CHR ''/'' \<notin> set (external_id (attrs d))"
  shows "resourceAccessCreate (spec_deps nj pts) echo_conn d h =
         ([], d\<lparr>Id := server_id (attrs d) @ ''/'' @ external_id (attrs d)\<rparr>,
          h @ [CreateAccess input, FindAccess (server_id (attrs d)) (external_id (attrs d))])"
proof -
  let ?deps = "spec_deps nj pts"
  let ?id = "server_id (attrs d) @ ''/'' @ external_id (attrs d)"
  let ?d = "d\<lparr>Id := ?id\<rparr>"
  have ident: "AccessCreateResourceID ?deps (server_id (attrs d)) (external_id (attrs d)) = ?id"
    by (simp add: spec_deps_def spec_AccessCreateResourceID_def)
  have parse: "AccessParseResourceID ?deps (Id ?d) =
                 Inr (server_id (attrs d), external_id (attrs d))"
    using parse_created_id[OF s1 s2]
    by (simp add: spec_deps_def spec_AccessCreateResourceID_def)
  have find: "FindAccessByServerIDAndExternalID echo_conn (h @ [CreateAccess input])
                (server_id (attrs d)) (external_id (attrs d)) = Inr (described_of input)"
    by (simp add: echo_conn_def last_created_snoc)
  have set: "set_access ?deps (server_id (attrs ?d)) (described_of input) ?d = ([], ?d)"
    by (rule set_access_echo) (use len pol inp nrm in simp_all)
  have read: "resourceAccessRead ?deps echo_conn ?d (h @ [CreateAccess input]) =
          ([], ?d, (h @ [CreateAccess input])
                   @ [FindAccess (server_id (attrs d)) (external_id (attrs d))])"
    using access_read_found[OF parse find] set by simp
  have created: "CreateAccessWithContext echo_conn h input = None"
    by (simp add: echo_conn_def)
  show ?thesis
    unfolding resourceAccessCreate_def ident Let_def inp
    using read created by simp
qed

text \<open>
  C8, for the Transfer access. A valid configuration \<open>cfg\<close> has at most one
  \<^verbatim>\<open>posix_profile\<close> block (\<^verbatim>\<open>MaxItems: 1\<close>) and a policy that JSON normalisation leaves as
  it is (the schema's \<^verbatim>\<open>StateFunc\<close> stores the normalised text); \<^verbatim>\<open>verify.PolicyToSet\<close>
  settles on the returned policy. Create's request for \<open>cfg\<close>, described back by the remote
  and projected by Read into any tracked state \<open>d0\<close>, whatever it held, gives the attributes
  of \<open>cfg\<close>: Read writes every attribute from the wire but the role, which it leaves as
  tracked. A block that is absent in \<open>cfg\<close> is omitted from the request, absent in the
  description and absent in the result, also where \<open>d0\<close> had one. In Create the tracked state
  is the configuration, so there the result is \<open>cfg\<close> with its role: when neither identity
  attribute contains the separator, Create as a whole, against a remote that describes what
  was created, ends with the attributes of the configuration and no diagnostics.
\<close>

theorem create_then_read_round_trip:
  "length (posix_profile cfg) \<le> 1
   \<and> (policy cfg \<noteq> [] \<longrightarrow> nj (policy cfg) = Inr (policy cfg))
   \<and> pts (policy (attrs d0)) (policy cfg) = Inr (policy cfg)
   \<and> pts (policy cfg) (policy cfg) = Inr (policy cfg)
   \<longrightarrow> (\<exists>input.
          create_access_input (spec_deps nj pts) cfg = Inr input
        \<and> set_access (spec_deps nj pts) (server_id cfg) (described_of input) d0 =
            ([], d0\<lparr>attrs := cfg\<lparr>role := role (attrs d0)\<rparr>\<rparr>)
        \<and> (posix_profile cfg = [] \<longrightarrow>
             PosixProfile input = None \<and> da_PosixProfile (described_of input) = None
             \<and> posix_profile (attrs (snd (set_access (spec_deps nj pts) (server_id cfg)
                                             (described_of input) d0))) = [])
        \<and> (home_directory_mappings cfg = [] \<longrightarrow>
             HomeDirectoryMappings input = None
             \<and> home_directory_mappings (attrs (snd (set_access (spec_deps nj pts)
                   (server_id cfg) (described_of input) d0))) = [])
        \<and> (attrs d = cfg \<and> CHR ''/'' \<notin> set (server_id cfg) \<and> CHR ''/'' \<notin> set (external_id cfg) \<longrightarrow>
             resourceAccessCreate (spec_deps nj pts) echo_conn d h =
               ([], d\<lparr>Id := server_id cfg @ ''/'' @ external_id cfg\<rparr>,
                h @ [CreateAccess input, FindAccess (server_id cfg) (external_id cfg)])))"
proof (rule impI)
  assume a: "length (posix_profile cfg) \<le> 1
   \<and> (policy cfg \<noteq> [] \<longrightarrow> nj (policy cfg) = Inr (policy cfg))
   \<and> pts (policy (attrs d0)) (policy cfg) = Inr (policy cfg)
   \<and> pts (policy cfg) (policy cfg) = Inr (policy cfg)"
  then have len: "length (posix_profile cfg) \<le> 1"
    and nrm: "policy cfg \<noteq> [] \<longrightarrow> nj (policy cfg) = Inr (policy cfg)"
    and pol0: "pts (policy (attrs d0)) (policy cfg) = Inr (policy cfg)"
    and pol: "pts (policy cfg) (policy cfg) = Inr (policy cfg)"
    by simp_all
  let ?input = "\<lparr>ExternalId = Some (external_id cfg), ServerId = Some (server_id cfg),
          HomeDirectory = GetOk (home_directory cfg),
          HomeDirectoryMappings =
            (if home_directory_mappings cfg \<noteq> []
             then Some (spec_expandHomeDirectoryMappings (home_directory_mappings cfg)) else None),
          HomeDirectoryType = GetOk (home_directory_type cfg),
          Policy = GetOk (policy cfg),
          PosixProfile =
            (if posix_profile cfg \<noteq> [] then spec_expandUserPOSIXUser (posix_profile cfg)
             else None),
          Role = GetOk (role cfg)\<rparr>"
  have inp: "create_access_input (spec_deps nj pts) cfg = Inr ?input"
    using create_input_ok[of cfg nj pts] nrm by simp
  have set: "set_access (spec_deps nj pts) (server_id cfg) (described_of ?input) d0 =
               ([], d0\<lparr>attrs := cfg\<lparr>role := role (attrs d0)\<rparr>\<rparr>)"
    by (rule set_access_decodes[OF len pol0 inp nrm])
  have posix: "posix_profile cfg = [] \<longrightarrow>
             PosixProfile ?input = None \<and> da_PosixProfile (described_of ?input) = None
             \<and> posix_profile (attrs (snd (set_access (spec_deps nj pts) (server_id cfg)
                                             (described_of ?input) d0))) = []"
    unfolding set by (simp add: described_of_def)
  have maps: "home_directory_mappings cfg = [] \<longrightarrow>
             HomeDirectoryMappings ?input = None
             \<and> home_directory_mappings (attrs (snd (set_access (spec_deps nj pts)
                   (server_id cfg) (described_of ?input) d0))) = []"
    unfolding set by simp
  have whole: "attrs d = cfg \<and> CHR ''/'' \<notin> set (server_id cfg) \<and> CHR ''/'' \<notin> set (external_id cfg) \<longrightarrow>
             resourceAccessCreate (spec_deps nj pts) echo_conn d h =
               ([], d\<lparr>Id := server_id cfg @ ''/'' @ external_id cfg\<rparr>,
                h @ [CreateAccess ?input, FindAccess (server_id cfg) (external_id cfg)])"
  proof (rule impI)
    assume b: "attrs d = cfg \<and> CHR ''/'' \<notin> set (server_id cfg) \<and> CHR ''/'' \<notin> set (external_id cfg)"
    then have cfg: "cfg = attrs d" by simp
    from access_create_echo[of d pts nj ?input h] len pol inp nrm b
    show "resourceAccessCreate (spec_deps nj pts) echo_conn d h =
               ([], d\<lparr>Id := server_id cfg @ ''/'' @ external_id cfg\<rparr>,
                h @ [CreateAccess ?input, FindAccess (server_id cfg) (external_id cfg)])"
      unfolding cfg by simp
  qed
  from inp set posix maps whole
  show "(\<exists>input.
          create_access_input (spec_deps nj pts) cfg = Inr input
        \<and> set_access (spec_deps nj pts) (server_id cfg) (described_of input) d0 =
            ([], d0\<lparr>attrs := cfg\<lparr>role := role (attrs d0)\<rparr>\<rparr>)
        \<and> (posix_profile cfg = [] \<longrightarrow>
             PosixProfile input = None \<and> da_PosixProfile (described_of input) = None
             \<and> posix_profile (attrs (snd (set_access (spec_deps nj pts) (server_id cfg)
                                             (described_of input) d0))) = [])
        \<and> (home_directory_mappings cfg = [] \<longrightarrow>
             HomeDirectoryMappings input = None
             \<and> home_directory_mappings (attrs (snd (set_access (spec_deps nj pts)
                   (server_id cfg) (described_of input) d0))) = [])
        \<and> (attrs d = cfg \<and> CHR ''/'' \<notin> set (server_id cfg) \<and> CHR ''/'' \<notin> set (external_id cfg) \<longrightarrow>
             resourceAccessCreate (spec_deps nj pts) echo_conn d h =
               ([], d\<lparr>Id := server_id cfg @ ''/'' @ external_id cfg\<rparr>,
                h @ [CreateAccess input, FindAccess (server_id cfg) (external_id cfg)])))"
    by (intro exI[of _ ?input]) blast
qed

theorem create_then_read_round_trip_witness:
  "(\<exists>input.
      create_access_input deps0 access_attrs1 = Inr input
    \<and> set_access deps0 ''s-1'' (described_of input)
        (access_existing\<lparr>attrs := access_attrs0\<lparr>role := ''arn:aws:iam::1:role/other''\<rparr>\<rparr>)
        = ([], access_existing\<lparr>attrs := access_attrs1\<lparr>role := ''arn:aws:iam::1:role/other''\<rparr>\<rparr>)
    \<and> resourceAccessCreate deps0 echo_conn (access_planned access_attrs1) [] =
        ([], (access_planned access_attrs1)\<lparr>Id := ''s-1/S-1-1''\<rparr>,
         [CreateAccess input, FindAccess ''s-1'' ''S-1-1'']))
   \<and> (\<exists>input.
      create_access_input deps0 access_attrs0 = Inr input
    \<and> set_access deps0 ''s-1'' (described_of input) (access_planned access_attrs1)
        = ([], access_planned access_attrs1\<lparr>attrs := access_attrs0\<rparr>)
    \<and> PosixProfile input = None \<and> HomeDirectoryMappings input = None
    \<and> da_PosixProfile (described_of input) = None
    \<and> posix_profile (attrs (snd (set_access deps0 ''s-1'' (described_of input)
                                   (access_planned access_attrs1)))) = []
    \<and> posix_profile (attrs (access_planned access_attrs1)) \<noteq> [])"
proof -
  let ?dA = "access_existing\<lparr>attrs := access_attrs0\<lparr>role := ''arn:aws:iam::1:role/other''\<rparr>\<rparr>"
  let ?dB = "access_planned access_attrs1"
  have valid1: "length (posix_profile access_attrs1) \<le> 1
     \<and> (policy access_attrs1 \<noteq> [] \<longrightarrow>
          Inr (policy access_attrs1) = (Inr (policy access_attrs1) :: string + string))
     \<and> (\<lambda>exist new. Inr new) (policy (attrs ?dA)) (policy access_attrs1)
        = (Inr (policy access_attrs1) :: string + string)
     \<and> (\<lambda>exist new. Inr new) (policy access_attrs1) (policy access_attrs1)
        = (Inr (policy access_attrs1) :: string + string)"
    by (simp add: access_attrs1_def)
  have valid0: "length (posix_profile access_attrs0) \<le> 1
     \<and> (policy access_attrs0 \<noteq> [] \<longrightarrow>
          Inr (policy access_attrs0) = (Inr (policy access_attrs0) :: string + string))
     \<and> (\<lambda>exist new. Inr new) (policy (attrs ?dB)) (policy access_attrs0)
        = (Inr (policy access_attrs0) :: string + string)
     \<and> (\<lambda>exist new. Inr new) (policy access_attrs0) (policy access_attrs0)
        = (Inr (policy access_attrs0) :: string + string)"
    by (simp add: access_attrs0_def)
  have fields1: "attrs ?dB = access_attrs1"
    "server_id access_attrs1 = ''s-1''" "external_id access_attrs1 = ''S-1-1''"
    "CHR ''/'' \<notin> set (server_id access_attrs1)" "CHR ''/'' \<notin> set (external_id access_attrs1)"
    "role (attrs ?dA) = ''arn:aws:iam::1:role/other''"
    "posix_profile (attrs ?dB) \<noteq> []"
    by (simp_all add: access_planned_def access_attrs1_def)
  have fields0: "server_id access_attrs0 = ''s-1''"
    "posix_profile access_attrs0 = []" "home_directory_mappings access_attrs0 = []"
    "access_attrs0\<lparr>role := role (attrs ?dB)\<rparr> = access_attrs0"
    by (simp_all add: access_planned_def access_attrs0_def access_attrs1_def)
  from create_then_read_round_trip
         [of access_attrs1 Inr "\<lambda>exist new. Inr new" ?dA ?dB "[]"] valid1
  obtain inA where
    "create_access_input deps0 access_attrs1 = Inr inA"
    "set_access deps0 ''s-1'' (described_of inA) ?dA
        = ([], access_existing\<lparr>attrs := access_attrs1\<lparr>role := ''arn:aws:iam::1:role/other''\<rparr>\<rparr>)"
    "resourceAccessCreate deps0 echo_conn ?dB [] =
        ([], ?dB\<lparr>Id := ''s-1/S-1-1''\<rparr>, [CreateAccess inA, FindAccess ''s-1'' ''S-1-1''])"
    unfolding deps0_def using fields1 by auto
  moreover
  from create_then_read_round_trip
         [of access_attrs0 Inr "\<lambda>exist new. Inr new" ?dB ?dB "[]"] valid0
  obtain inB where
    "create_access_input deps0 access_attrs0 = Inr inB"
    "set_access deps0 ''s-1'' (described_of inB) ?dB = ([], ?dB\<lparr>attrs := access_attrs0\<rparr>)"
    "PosixProfile inB = None" "HomeDirectoryMappings inB = None"
    "da_PosixProfile (described_of inB) = None"
    "posix_profile (attrs (snd (set_access deps0 ''s-1'' (described_of inB) ?dB))) = []"
    unfolding deps0_def using fields0 by auto
  ultimately show ?thesis using fields1(7) by blast
qed

end
